theory Spec2Isabelle
  imports Complex_Main
begin

section \<open>Python values\<close>

text \<open>
  The values the strategies of \<^verbatim>\<open>hypothesis_ros\<close> produce and test: numbers, strings, lists,
  tuples and the named tuples declared at the top of the message modules. A Python float
  is kept by its numeric value, with the two infinities and NaN as values of their own;
  the sign of zero is not kept (Python's \<^verbatim>\<open>==\<close> does not see it either).
\<close>

datatype pyfloat = Finite rat | PosInf | NegInf | NaN

text \<open>
  The classes made by \<^verbatim>\<open>namedtuple(typename, field_names)\<close>: \<^verbatim>\<open>_Point\<close>, \<^verbatim>\<open>_Quaternion\<close>, ... of
  geometry\_messages.py, \<^verbatim>\<open>_Log\<close> of rosgraph\_msgs.py and \<^verbatim>\<open>_Header\<close>, which
  geometry\_messages.py imports. Each is named by its typename.
\<close>

datatype namedtuple_class =
    Point | Quaternion | Pose | PoseWithCovariance | PoseWithCovarianceStamped
  | Transform | TransformStamped | Vector3 | Log | Header

datatype pyval =
    PyBool bool
  | PyInt int
  | PyFloat pyfloat
  | PyStr string
  | PyList "pyval list"
  | PyTuple "pyval list"
  | PyNamedtuple namedtuple_class "pyval list"

text \<open>The field names each \<^verbatim>\<open>namedtuple\<close> call declares, in order.\<close>

fun field_names :: "namedtuple_class \<Rightarrow> string list" where
  "field_names Point = [''x'', ''y'', ''z'']"
| "field_names Quaternion = [''x'', ''y'', ''z'', ''w'']"
| "field_names Pose = [''position'', ''orientation'']"
| "field_names PoseWithCovariance = [''pose'', ''covariance'']"
| "field_names PoseWithCovarianceStamped = [''header'', ''pose'']"
| "field_names Transform = [''translation'', ''rotation'']"
| "field_names TransformStamped = [''header'', ''child_frame_id'', ''transform'']"
| "field_names Vector3 = [''x'', ''y'', ''z'']"
| "field_names Log = [''header'', ''level'', ''name'', ''msg'', ''file'', ''function'',
     ''line'', ''topics'']"
| "field_names Header = [''seq'', ''stamp'', ''frame_id'']"

text \<open>
  \<^verbatim>\<open>isinstance(v, t)\<close> for the types the assertions name. \<^verbatim>\<open>bool\<close> is a subclass of
  \<^verbatim>\<open>int\<close> in Python, so a boolean passes the \<^verbatim>\<open>int\<close> test.
\<close>

datatype pytype = T_float | T_int | T_str | T_list | T_namedtuple namedtuple_class

definition isinstance :: "pyval \<Rightarrow> pytype \<Rightarrow> bool" where
  "isinstance v t =
     (case t of
        T_float \<Rightarrow> (case v of PyFloat _ \<Rightarrow> True | _ \<Rightarrow> False)
      | T_int \<Rightarrow> (case v of PyInt _ \<Rightarrow> True | PyBool _ \<Rightarrow> True | _ \<Rightarrow> False)
      | T_str \<Rightarrow> (case v of PyStr _ \<Rightarrow> True | _ \<Rightarrow> False)
      | T_list \<Rightarrow> (case v of PyList _ \<Rightarrow> True | _ \<Rightarrow> False)
      | T_namedtuple c \<Rightarrow> (case v of PyNamedtuple c' _ \<Rightarrow> c' = c | _ \<Rightarrow> False))"

text \<open>
  Python's \<^verbatim>\<open>==\<close> on these values, as the tests use it to compare a drawn record with a
  plain tuple: a named tuple is a tuple and compares by its items; booleans, integers and
  floats compare by number; NaN equals nothing.
\<close>

fun num_of :: "pyval \<Rightarrow> pyfloat option" where
  "num_of (PyBool b) = Some (Finite (if b then 1 else 0))"
| "num_of (PyInt i) = Some (Finite (of_int i))"
| "num_of (PyFloat f) = Some f"
| "num_of _ = None"

fun items_of :: "pyval \<Rightarrow> pyval list option" where
  "items_of (PyTuple xs) = Some xs"
| "items_of (PyNamedtuple _ xs) = Some xs"
| "items_of _ = None"

fun py_eq :: "pyval \<Rightarrow> pyval \<Rightarrow> bool"
  and py_eq_items :: "pyval list \<Rightarrow> pyval list \<Rightarrow> bool" where
  "py_eq (PyStr a) w = (case w of PyStr b \<Rightarrow> a = b | _ \<Rightarrow> False)"
| "py_eq (PyList xs) w = (case w of PyList ys \<Rightarrow> py_eq_items xs ys | _ \<Rightarrow> False)"
| "py_eq (PyTuple xs) w = (case items_of w of Some ys \<Rightarrow> py_eq_items xs ys | None \<Rightarrow> False)"
| "py_eq (PyNamedtuple c xs) w =
     (case items_of w of Some ys \<Rightarrow> py_eq_items xs ys | None \<Rightarrow> False)"
| "py_eq (PyBool b) w =
     (case num_of w of Some g \<Rightarrow> g = Finite (if b then 1 else 0) | None \<Rightarrow> False)"
| "py_eq (PyInt i) w = (case num_of w of Some g \<Rightarrow> g = Finite (of_int i) | None \<Rightarrow> False)"
| "py_eq (PyFloat f) w = (case num_of w of Some g \<Rightarrow> f \<noteq> NaN \<and> g = f | None \<Rightarrow> False)"
| "py_eq_items [] ys = (ys = [])"
| "py_eq_items (x # xs) ys =
     (case ys of [] \<Rightarrow> False | y # ys' \<Rightarrow> py_eq x y \<and> py_eq_items xs ys')"

section \<open>Exceptions, assert and str.format\<close>

datatype pyerr =
    AssertionError string
  | KeyError string
  | IndexError
  | ValueError
  | InvalidArgument
  | TypeError
  | AttributeError

text \<open>
  \<^verbatim>\<open>assert cond, message\<close>: the message is an expression, evaluated only when the
  condition is false; when that evaluation raises, its exception is the one the caller
  sees, and no \<^verbatim>\<open>AssertionError\<close> is built. The third argument is the rest of the
  function body.
\<close>

definition py_assert :: "bool \<Rightarrow> pyerr + string \<Rightarrow> pyerr + 'a \<Rightarrow> pyerr + 'a" where
  "py_assert cond message rest =
     (if cond then rest
      else (case message of Inl err \<Rightarrow> Inl err | Inr s \<Rightarrow> Inl (AssertionError s)))"

text \<open>
  \<^verbatim>\<open>template.format(*args)\<close> with positional arguments only, which is how every assertion
  message of the message modules calls it. The template is read left to right;
  \<^verbatim>\<open>{{\<close> and \<^verbatim>\<open>}}\<close> are literal braces; a replacement field runs to the next \<^verbatim>\<open>}\<close> and
  its key is what stands before the first of \<^verbatim>\<open>. [ ! :\<close>. An empty key takes the next
  positional argument, a key of digits the argument of that index (\<^verbatim>\<open>IndexError\<close> past
  the end), and any other key is looked up among the keyword arguments: there are none,
  so it raises \<^verbatim>\<open>KeyError(key)\<close>. How an argument is rendered (\<^verbatim>\<open>str\<close> of a value or of a
  strategy object) is a parameter.
\<close>

definition field_key :: "string \<Rightarrow> string" where
  "field_key field = takeWhile (\<lambda>c. c \<notin> set ''.[!:'') field"

definition is_digit :: "char \<Rightarrow> bool" where
  "is_digit c = (c \<in> set ''0123456789'')"

fun digits_value :: "nat \<Rightarrow> string \<Rightarrow> nat" where
  "digits_value acc [] = acc"
| "digits_value acc (c # cs) = digits_value (10 * acc + (of_char c - of_char CHR ''0'')) cs"

definition get_field :: "('a \<Rightarrow> string) \<Rightarrow> 'a list \<Rightarrow> nat \<Rightarrow> string \<Rightarrow> pyerr + string \<times> nat" where
  "get_field render args auto field =
     (let key = field_key field in
      if key = [] then
        (if auto < length args then Inr (render (args ! auto), Suc auto) else Inl IndexError)
      else if list_all is_digit key then
        (let i = digits_value 0 key in
         if i < length args then Inr (render (args ! i), auto) else Inl IndexError)
      else Inl (KeyError key))"

fun format_from :: "('a \<Rightarrow> string) \<Rightarrow> 'a list \<Rightarrow> string option \<Rightarrow> nat \<Rightarrow> string \<Rightarrow> pyerr + string" where
  "format_from render args None auto [] = Inr []"
| "format_from render args (Some field) auto [] = Inl ValueError"
| "format_from render args None auto (c # cs) =
     (if c = CHR ''{'' then
        (case cs of
           [] \<Rightarrow> Inl ValueError
         | d # ds \<Rightarrow>
             if d = CHR ''{'' then map_sum id ((#) c) (format_from render args None auto ds)
             else format_from render args (Some []) auto cs)
      else if c = CHR ''}'' then
        (case cs of
           [] \<Rightarrow> Inl ValueError
         | d # ds \<Rightarrow>
             if d = CHR ''}'' then map_sum id ((#) c) (format_from render args None auto ds)
             else Inl ValueError)
      else map_sum id ((#) c) (format_from render args None auto cs))"
| "format_from render args (Some field) auto (c # cs) =
     (if c = CHR ''}'' then
        (case get_field render args auto field of
           Inl err \<Rightarrow> Inl err
         | Inr (s, auto') \<Rightarrow> map_sum id ((@) s) (format_from render args None auto' cs))
      else format_from render args (Some (field @ [c])) auto cs)"

definition str_format :: "('a \<Rightarrow> string) \<Rightarrow> string \<Rightarrow> 'a list \<Rightarrow> pyerr + string" where
  "str_format render template args = format_from render args None 0 template"

section \<open>Strategies\<close>

text \<open>
  A strategy object, as a value. The first six are the strategies of the hypothesis
  library that the field constructors of \<^verbatim>\<open>hypothesis_ros.message_fields\<close> return
  (\<^verbatim>\<open>just\<close>, \<^verbatim>\<open>integers\<close>, \<^verbatim>\<open>floats\<close>, \<^verbatim>\<open>text\<close>, \<^verbatim>\<open>booleans\<close>, \<^verbatim>\<open>lists\<close>), with their bounds.
  A \<^verbatim>\<open>Composite_f\<close> is what calling the \<^verbatim>\<open>@composite\<close> function \<^verbatim>\<open>f\<close> returns: the
  function together with the strategies bound to its parameters, in the order of its
  signature.
\<close>

datatype strategy =
    Just pyval
  | Integers int int
  | Floats "pyfloat option" "pyfloat option"
  | Text
  | Booleans
  | Lists strategy "nat option" "nat option"
  | Composite_time strategy strategy
  | Composite_header strategy strategy strategy
  | Composite_point strategy strategy strategy
  | Composite_quaternion strategy strategy strategy strategy
  | Composite_pose strategy strategy
  | Composite_pose_with_covariance strategy strategy
  | Composite_pose_with_covariance_stamped strategy strategy
  | Composite_vector3 strategy strategy strategy
  | Composite_transform strategy strategy
  | Composite_transform_stamped strategy strategy strategy
  | Composite_log strategy strategy strategy strategy strategy strategy strategy strategy

text \<open>The two arguments every assertion message passes to \<^verbatim>\<open>format\<close>.\<close>

datatype format_arg = Value pyval | Strategy strategy

text \<open>
  What the message modules take from outside the repository. The hypothesis engine
  decides which value a primitive strategy yields: it is a parameter, a family of
  functions from the engine's state \<^typ>\<open>'e\<close> (the random choices still to be made) to
  the value chosen and the state left. \<^verbatim>\<open>str_of\<close> is Python's rendering of a value or
  of a strategy object inside \<^verbatim>\<open>str.format\<close>.
\<close>

record 'e extern =
  draw_integer :: "int \<Rightarrow> int \<Rightarrow> 'e \<Rightarrow> int \<times> 'e"
  draw_float :: "pyfloat option \<Rightarrow> pyfloat option \<Rightarrow> 'e \<Rightarrow> pyfloat \<times> 'e"
  draw_text :: "'e \<Rightarrow> string \<times> 'e"
  draw_boolean :: "'e \<Rightarrow> bool \<times> 'e"
  draw_size :: "nat option \<Rightarrow> nat option \<Rightarrow> 'e \<Rightarrow> nat \<times> 'e"
  str_of :: "format_arg \<Rightarrow> string"

text \<open>
  One statement \<^verbatim>\<open>v = draw(s)\<close> followed by the rest of the body: an exception raised
  inside the draw ends the body.
\<close>

definition draw_then ::
  "pyerr + 'a \<times> 'e \<Rightarrow> ('a \<Rightarrow> 'e \<Rightarrow> pyerr + 'b \<times> 'e) \<Rightarrow> pyerr + 'b \<times> 'e" where
  "draw_then m rest = (case m of Inl err \<Rightarrow> Inl err | Inr (v, e) \<Rightarrow> rest v e)"

lemma draw_then_cong [fundef_cong]:
  "m = m' \<Longrightarrow> (\<And>v e. m' = Inr (v, e) \<Longrightarrow> rest v e = rest' v e)
     \<Longrightarrow> draw_then m rest = draw_then m' rest'"
  by (auto simp: draw_then_def split: sum.splits)

text \<open>
  \<^verbatim>\<open>draw(strategy)\<close>. The composite cases are the bodies of the \<^verbatim>\<open>@composite\<close> functions
  of geometry\_messages.py and rosgraph\_msgs.py, statement by statement: the draws in
  the order written, then the assertions in the order written, each with its message
  expression as written, then the named tuple.

  Modelled from the spec: \<^verbatim>\<open>time\<close> of hypothesis\_ros/message\_fields.py and \<^verbatim>\<open>header\<close> of
  hypothesis\_ros/messages/std\_msgs.py are not among the sources. \<^verbatim>\<open>time\<close> is "a fixed
  two-field composite (seconds, nanoseconds) ... produced as an ordered pair"; \<^verbatim>\<open>header\<close>
  is the composite of \<^verbatim>\<open>seq\<close>, \<^verbatim>\<open>stamp\<close> and \<^verbatim>\<open>frame_id\<close>, drawn in that order and
  assembled into the \<^verbatim>\<open>_Header\<close> record. No type assertion is modelled for \<^verbatim>\<open>header\<close>:
  tests/messages/test\_sensor\_msgs.py draws a float \<^verbatim>\<open>frame_id\<close> through \<^verbatim>\<open>header\<close> and
  expects the record \<^verbatim>\<open>(0, (0, 0), 0.0)\<close> back.
  A list strategy lets the engine choose a length within the size bounds and then draws
  that many elements, one after the other.
\<close>

fun draw :: "'e extern \<Rightarrow> strategy \<Rightarrow> 'e \<Rightarrow> pyerr + pyval \<times> 'e"
  and draw_elements :: "'e extern \<Rightarrow> strategy \<Rightarrow> nat \<Rightarrow> 'e \<Rightarrow> pyerr + pyval list \<times> 'e" where
  "draw ext (Just v) e = Inr (v, e)"
| "draw ext (Integers lo hi) e = (case draw_integer ext lo hi e of (i, e') \<Rightarrow> Inr (PyInt i, e'))"
| "draw ext (Floats lo hi) e = (case draw_float ext lo hi e of (f, e') \<Rightarrow> Inr (PyFloat f, e'))"
| "draw ext Text e = (case draw_text ext e of (s, e') \<Rightarrow> Inr (PyStr s, e'))"
| "draw ext Booleans e = (case draw_boolean ext e of (b, e') \<Rightarrow> Inr (PyBool b, e'))"
| "draw ext (Lists elements min_size max_size) e =
     (case draw_size ext min_size max_size e of
        (n, e') \<Rightarrow> draw_then (draw_elements ext elements n e') (\<lambda>vs e. Inr (PyList vs, e)))"
| "draw ext (Composite_time secs nsecs) e =
     (draw_then (draw ext secs e) (\<lambda>secs_value e.
      draw_then (draw ext nsecs e) (\<lambda>nsecs_value e.
      Inr (PyTuple [secs_value, nsecs_value], e))))"
| "draw ext (Composite_header seq stamp frame_id) e =
     (draw_then (draw ext seq e) (\<lambda>seq_value e.
      draw_then (draw ext stamp e) (\<lambda>stamp_value e.
      draw_then (draw ext frame_id e) (\<lambda>frame_id_value e.
      Inr (PyNamedtuple Header [seq_value, stamp_value, frame_id_value], e)))))"
| "draw ext (Composite_point x y z) e =
     (draw_then (draw ext x e) (\<lambda>x_value e.
      draw_then (draw ext y e) (\<lambda>y_value e.
      draw_then (draw ext z e) (\<lambda>z_value e.
      py_assert (isinstance x_value T_float)
        (str_format (str_of ext)
           ''drew invalid x={x_value} from {x} for float64 field''
           [Value x_value, Strategy x])
     (      py_assert (isinstance y_value T_float)
        (str_format (str_of ext)
           ''drew invalid y={y_value} from {y} for float64 field''
           [Value y_value, Strategy y])
     (      py_assert (isinstance z_value T_float)
        (str_format (str_of ext)
           ''drew invalid y={z_value} from {z} for float64 field''
           [Value z_value, Strategy z])
     (Inr (PyNamedtuple Point [x_value, y_value, z_value], e))))))))"
| "draw ext (Composite_quaternion x y z w) e =
     (draw_then (draw ext x e) (\<lambda>x_value e.
      draw_then (draw ext y e) (\<lambda>y_value e.
      draw_then (draw ext z e) (\<lambda>z_value e.
      draw_then (draw ext w e) (\<lambda>w_value e.
      py_assert (isinstance x_value T_float)
        (str_format (str_of ext)
           ''drew invalid x={x_value} from {x} for float64 field''
           [Value x_value, Strategy x])
     (      py_assert (isinstance y_value T_float)
        (str_format (str_of ext)
           ''drew invalid y={y_value} from {y} for float64 field''
           [Value y_value, Strategy y])
     (      py_assert (isinstance z_value T_float)
        (str_format (str_of ext)
           ''drew invalid y={z_value} from {z} for float64 field''
           [Value z_value, Strategy z])
     (      py_assert (isinstance w_value T_float)
        (str_format (str_of ext)
           ''drew invalid y={w_value} from {w} for float64 field''
           [Value w_value, Strategy w])
     (Inr (PyNamedtuple Quaternion [x_value, y_value, z_value, w_value], e))))))))))"
| "draw ext (Composite_pose position orientation) e =
     (draw_then (draw ext position e) (\<lambda>position_value e.
      draw_then (draw ext orientation e) (\<lambda>orientation_value e.
      py_assert (isinstance position_value (T_namedtuple Point))
        (str_format (str_of ext)
           ''drew invalid position={position_value} from {position} for _Point field''
           [Value position_value, Strategy position])
     (      py_assert (isinstance orientation_value (T_namedtuple Quaternion))
        (str_format (str_of ext)
           ''drew invalid orientation={orientation_value} from {orientation} for _Quaternion field''
           [Value orientation_value, Strategy orientation])
     (Inr (PyNamedtuple Pose [position_value, orientation_value], e))))))"
| "draw ext (Composite_pose_with_covariance pose covariance) e =
     (draw_then (draw ext pose e) (\<lambda>pose_value e.
      draw_then (draw ext covariance e) (\<lambda>covariance_value e.
     (Inr (PyNamedtuple PoseWithCovariance [pose_value, covariance_value], e)))))"
| "draw ext (Composite_pose_with_covariance_stamped header pose_with_covariance) e =
     (draw_then (draw ext header e) (\<lambda>header_value e.
      draw_then (draw ext pose_with_covariance e) (\<lambda>pose_with_covariance_value e.
     (Inr (PyNamedtuple PoseWithCovarianceStamped [header_value, pose_with_covariance_value], e)))))"
| "draw ext (Composite_vector3 x y z) e =
     (draw_then (draw ext x e) (\<lambda>x_value e.
      draw_then (draw ext y e) (\<lambda>y_value e.
      draw_then (draw ext z e) (\<lambda>z_value e.
      py_assert (isinstance x_value T_float)
        (str_format (str_of ext)
           ''drew invalid x={x_value} from {x} for float64 field''
           [Value x_value, Strategy x])
     (      py_assert (isinstance y_value T_float)
        (str_format (str_of ext)
           ''drew invalid y={y_value} from {y} for float64 field''
           [Value y_value, Strategy y])
     (      py_assert (isinstance z_value T_float)
        (str_format (str_of ext)
           ''drew invalid y={z_value} from {z} for float64 field''
           [Value z_value, Strategy z])
     (Inr (PyNamedtuple Vector3 [x_value, y_value, z_value], e))))))))"
| "draw ext (Composite_transform translation rotation) e =
     (draw_then (draw ext translation e) (\<lambda>translation_value e.
      draw_then (draw ext rotation e) (\<lambda>rotation_value e.
      py_assert (isinstance translation_value (T_namedtuple Vector3))
        (str_format (str_of ext)
           ''drew invalid translation={translation_value} from {translation} for _Vector3 field''
           [Value translation_value, Strategy translation])
     (      py_assert (isinstance rotation_value (T_namedtuple Quaternion))
        (str_format (str_of ext)
           ''drew invalid rotation={rotation_value} from {rotation} for _Quaternion field''
           [Value rotation_value, Strategy rotation])
     (Inr (PyNamedtuple Transform [translation_value, rotation_value], e))))))"
| "draw ext (Composite_transform_stamped header child_frame_id transform) e =
     (draw_then (draw ext header e) (\<lambda>header_value e.
      draw_then (draw ext child_frame_id e) (\<lambda>child_frame_id_value e.
      draw_then (draw ext transform e) (\<lambda>transform_value e.
      py_assert (isinstance header_value (T_namedtuple Header))
        (str_format (str_of ext)
           ''drew invalid header={header_value} from {header} for _Header field''
           [Value header_value, Strategy header])
     (      py_assert (isinstance child_frame_id_value T_str)
        (str_format (str_of ext)
           ''drew invalid child_frame_id={child_frame_id_value} from {child_frame_id} for string field''
           [Value child_frame_id_value, Strategy child_frame_id])
     (      py_assert (isinstance transform_value (T_namedtuple Transform))
        (str_format (str_of ext)
           ''drew invalid transform={transform_value} from {transform} for _Transform field''
           [Value transform_value, Strategy transform])
     (Inr (PyNamedtuple TransformStamped [header_value, child_frame_id_value, transform_value], e))))))))"
| "draw ext (Composite_log header level name msg file function line topics) e =
     (draw_then (draw ext header e) (\<lambda>header_value e.
      draw_then (draw ext level e) (\<lambda>level_value e.
      draw_then (draw ext name e) (\<lambda>name_value e.
      draw_then (draw ext msg e) (\<lambda>msg_value e.
      draw_then (draw ext file e) (\<lambda>file_value e.
      draw_then (draw ext function e) (\<lambda>function_value e.
      draw_then (draw ext line e) (\<lambda>line_value e.
      draw_then (draw ext topics e) (\<lambda>topics_value e.
      py_assert (isinstance level_value T_int)
        (str_format (str_of ext)
           ''drew invalid level={level_value} from {level} for int field''
           [Value level_value, Strategy level])
     (      py_assert (isinstance name_value T_str)
        (str_format (str_of ext)
           ''drew invalid name={name_value} from {name} for string field''
           [Value name_value, Strategy name])
     (      py_assert (isinstance msg_value T_str)
        (str_format (str_of ext)
           ''drew invalid msg={msg_value} from {msg} for string field''
           [Value msg_value, Strategy msg])
     (      py_assert (isinstance file_value T_str)
        (str_format (str_of ext)
           ''drew invalid file={file_value} from {file} for string field''
           [Value file_value, Strategy file])
     (      py_assert (isinstance function_value T_str)
        (str_format (str_of ext)
           ''drew invalid function={function_value} from {function} for string field''
           [Value function_value, Strategy function])
     (      py_assert (isinstance line_value T_int)
        (str_format (str_of ext)
           ''drew invalid line={line_value} from {line} for int field''
           [Value line_value, Strategy line])
     (      py_assert (isinstance topics_value T_list)
        (str_format (str_of ext)
           ''drew invalid topics={topics_value} from {msg} for list field''
           [Value topics_value, Strategy topics])
     (Inr (PyNamedtuple Log [header_value, level_value, name_value, msg_value, file_value, function_value, line_value, topics_value], e)))))))))))))))))"
| "draw_elements ext elements 0 e = Inr ([], e)"
| "draw_elements ext elements (Suc n) e =
     (draw_then (draw ext elements e) (\<lambda>v e.
      draw_then (draw_elements ext elements n e) (\<lambda>vs e.
      Inr (v # vs, e))))"

section \<open>Field constructors\<close>

text \<open>
  Modelled from the spec: hypothesis\_ros/message\_fields.py (\<^verbatim>\<open>uint8\<close>, \<^verbatim>\<open>uint32\<close>,
  \<^verbatim>\<open>float64\<close>, \<^verbatim>\<open>string\<close>, \<^verbatim>\<open>array\<close>, \<^verbatim>\<open>time\<close>) is not among the sources. After the
  spec's section 4.1: a bounded integer takes inclusive \<^verbatim>\<open>min_value\<close> and \<^verbatim>\<open>max_value\<close>
  "defaulting to the full representable range of the declared width/signedness" and
  "fails (construction error) if \<^verbatim>\<open>min_value > max_value\<close>"; a bounded float takes bounds
  "defaulting to unconstrained"; an array takes an \<^verbatim>\<open>elements\<close> generator and inclusive
  \<^verbatim>\<open>min_size\<close> and \<^verbatim>\<open>max_size\<close>, a bound left out being the engine's to choose; and "any
  malformed bound (e.g., negative length, inverted range) fails at
  generator-construction time". \<^verbatim>\<open>None\<close> is an argument left out.
\<close>

definition or_default :: "'a option \<Rightarrow> 'a \<Rightarrow> 'a" where
  "or_default given dflt = (case given of None \<Rightarrow> dflt | Some a \<Rightarrow> a)"

definition bounded_integer :: "int \<Rightarrow> int \<Rightarrow> int option \<Rightarrow> int option \<Rightarrow> pyerr + strategy" where
  "bounded_integer type_min type_max min_value max_value =
     (let lo = or_default min_value type_min; hi = or_default max_value type_max in
      if lo > hi then Inl InvalidArgument else Inr (Integers lo hi))"

definition uint8 :: "int option \<Rightarrow> int option \<Rightarrow> pyerr + strategy" where
  "uint8 min_value max_value = bounded_integer 0 255 min_value max_value"

definition uint32 :: "int option \<Rightarrow> int option \<Rightarrow> pyerr + strategy" where
  "uint32 min_value max_value = bounded_integer 0 4294967295 min_value max_value"

text \<open>The order of Python floats: NaN is comparable with nothing.\<close>

fun float_le :: "pyfloat \<Rightarrow> pyfloat \<Rightarrow> bool" where
  "float_le NaN b = False"
| "float_le NegInf b = (b \<noteq> NaN)"
| "float_le (Finite x) b = (case b of Finite y \<Rightarrow> x \<le> y | PosInf \<Rightarrow> True | _ \<Rightarrow> False)"
| "float_le PosInf b = (b = PosInf)"

definition float64 :: "pyfloat option \<Rightarrow> pyfloat option \<Rightarrow> pyerr + strategy" where
  "float64 min_value max_value =
     (if min_value = Some NaN \<or> max_value = Some NaN then Inl InvalidArgument
      else case (min_value, max_value) of
        (Some lo, Some hi) \<Rightarrow> if float_le lo hi then Inr (Floats min_value max_value)
                              else Inl InvalidArgument
      | _ \<Rightarrow> Inr (Floats min_value max_value))"

definition string :: "pyerr + strategy" where
  "string = Inr Text"

definition array :: "strategy \<Rightarrow> int option \<Rightarrow> int option \<Rightarrow> pyerr + strategy" where
  "array elements min_size max_size =
     (if (case min_size of Some lo \<Rightarrow> lo < 0 | None \<Rightarrow> False) then Inl InvalidArgument
      else if (case max_size of Some hi \<Rightarrow> hi < 0 | None \<Rightarrow> False) then Inl InvalidArgument
      else if (case (min_size, max_size) of (Some lo, Some hi) \<Rightarrow> lo > hi | _ \<Rightarrow> False)
        then Inl InvalidArgument
      else Inr (Lists elements (map_option nat min_size) (map_option nat max_size)))"

text \<open>
  The default arguments in the signatures of the message modules are calls without
  bounds, evaluated when the module is loaded. These are the strategies they evaluate
  to (\<open>default_values\<close> below): \<^verbatim>\<open>float64()\<close>, \<^verbatim>\<open>string()\<close>, \<^verbatim>\<open>uint8()\<close>, \<^verbatim>\<open>uint32()\<close>,
  \<^verbatim>\<open>array(elements=string())\<close> and
  \<^verbatim>\<open>array(elements=float64(), min_size=36, max_size=36)\<close>.
\<close>

definition float64_default :: strategy where
  "float64_default = Floats None None"

definition string_default :: strategy where
  "string_default = Text"

definition uint8_default :: strategy where
  "uint8_default = Integers 0 255"

definition uint32_default :: strategy where
  "uint32_default = Integers 0 4294967295"

definition topics_default :: strategy where
  "topics_default = Lists string_default None None"

definition covariance_default :: strategy where
  "covariance_default = Lists float64_default (Some 36) (Some 36)"

text \<open>
  Modelled from the spec: \<^verbatim>\<open>time(secs=uint32(), nsecs=uint32())\<close> of message\_fields.py
  and \<^verbatim>\<open>header(seq=uint32(), stamp=time(), frame_id=string())\<close> of std\_msgs.py, with the
  parameter names the tests call them by.
\<close>

definition time :: "strategy option \<Rightarrow> strategy option \<Rightarrow> strategy" where
  "time secs nsecs =
     Composite_time (or_default secs uint32_default) (or_default nsecs uint32_default)"

definition header :: "strategy option \<Rightarrow> strategy option \<Rightarrow> strategy option \<Rightarrow> strategy" where
  "header seq stamp frame_id =
     Composite_header (or_default seq uint32_default) (or_default stamp (time None None))
       (or_default frame_id string_default)"

section \<open>The composite constructors of the message modules\<close>

text \<open>
  Calling a \<^verbatim>\<open>@composite\<close> function binds each parameter to the strategy passed for it,
  or to the default of the signature when none is passed (\<^verbatim>\<open>None\<close> here). The defaults
  are those written in geometry\_messages.py and rosgraph\_msgs.py.
\<close>

definition point :: "strategy option \<Rightarrow> strategy option \<Rightarrow> strategy option \<Rightarrow> strategy" where
  "point x y z =
     Composite_point (or_default x float64_default) (or_default y float64_default)
       (or_default z float64_default)"

definition quaternion ::
  "strategy option \<Rightarrow> strategy option \<Rightarrow> strategy option \<Rightarrow> strategy option \<Rightarrow> strategy" where
  "quaternion x y z w =
     Composite_quaternion (or_default x float64_default) (or_default y float64_default)
       (or_default z float64_default) (or_default w float64_default)"

definition pose :: "strategy option \<Rightarrow> strategy option \<Rightarrow> strategy" where
  "pose position orientation =
     Composite_pose (or_default position (point None None None))
       (or_default orientation (quaternion None None None None))"

definition pose_with_covariance :: "strategy option \<Rightarrow> strategy option \<Rightarrow> strategy" where
  "pose_with_covariance pose_arg covariance =
     Composite_pose_with_covariance (or_default pose_arg (pose None None))
       (or_default covariance covariance_default)"

definition pose_with_covariance_stamped :: "strategy option \<Rightarrow> strategy option \<Rightarrow> strategy" where
  "pose_with_covariance_stamped header_arg pose_with_covariance_arg =
     Composite_pose_with_covariance_stamped (or_default header_arg (header None None None))
       (or_default pose_with_covariance_arg (pose_with_covariance None None))"

definition vector3 :: "strategy option \<Rightarrow> strategy option \<Rightarrow> strategy option \<Rightarrow> strategy" where
  "vector3 x y z =
     Composite_vector3 (or_default x float64_default) (or_default y float64_default)
       (or_default z float64_default)"

definition transform :: "strategy option \<Rightarrow> strategy option \<Rightarrow> strategy" where
  "transform translation rotation =
     Composite_transform (or_default translation (vector3 None None None))
       (or_default rotation (quaternion None None None None))"

definition transform_stamped ::
  "strategy option \<Rightarrow> strategy option \<Rightarrow> strategy option \<Rightarrow> strategy" where
  "transform_stamped header_arg child_frame_id transform_arg =
     Composite_transform_stamped (or_default header_arg (header None None None))
       (or_default child_frame_id string_default)
       (or_default transform_arg (transform None None))"

definition log_message ::
  "strategy option \<Rightarrow> strategy option \<Rightarrow> strategy option \<Rightarrow> strategy option \<Rightarrow>
   strategy option \<Rightarrow> strategy option \<Rightarrow> strategy option \<Rightarrow> strategy option \<Rightarrow> strategy" where
  "log_message header_arg level name msg file function line topics =
     Composite_log (or_default header_arg (header None None None))
       (or_default level uint8_default) (or_default name string_default)
       (or_default msg string_default) (or_default file string_default)
       (or_default function string_default) (or_default line uint32_default)
       (or_default topics topics_default)"

section \<open>What the claims speak of\<close>

text \<open>
  The field generators of a composite strategy, in the order of the function's
  signature, and the record class it assembles. A primitive strategy has neither.
\<close>

fun field_strategies :: "strategy \<Rightarrow> strategy list" where
  "field_strategies (Composite_time secs nsecs) = [secs, nsecs]"
| "field_strategies (Composite_header seq stamp frame_id) = [seq, stamp, frame_id]"
| "field_strategies (Composite_point x y z) = [x, y, z]"
| "field_strategies (Composite_quaternion x y z w) = [x, y, z, w]"
| "field_strategies (Composite_pose position orientation) = [position, orientation]"
| "field_strategies (Composite_pose_with_covariance pose_arg covariance) = [pose_arg, covariance]"
| "field_strategies (Composite_pose_with_covariance_stamped header_arg pose_with_covariance_arg) =
     [header_arg, pose_with_covariance_arg]"
| "field_strategies (Composite_vector3 x y z) = [x, y, z]"
| "field_strategies (Composite_transform translation rotation) = [translation, rotation]"
| "field_strategies (Composite_transform_stamped header_arg child_frame_id transform_arg) =
     [header_arg, child_frame_id, transform_arg]"
| "field_strategies (Composite_log header_arg level name msg file function line topics) =
     [header_arg, level, name, msg, file, function, line, topics]"
| "field_strategies (Just v) = []"
| "field_strategies (Integers lo hi) = []"
| "field_strategies (Floats lo hi) = []"
| "field_strategies Text = []"
| "field_strategies Booleans = []"
| "field_strategies (Lists elements min_size max_size) = []"

fun record_class :: "strategy \<Rightarrow> namedtuple_class option" where
  "record_class (Composite_header seq stamp frame_id) = Some Header"
| "record_class (Composite_point x y z) = Some Point"
| "record_class (Composite_quaternion x y z w) = Some Quaternion"
| "record_class (Composite_pose position orientation) = Some Pose"
| "record_class (Composite_pose_with_covariance pose_arg covariance) = Some PoseWithCovariance"
| "record_class (Composite_pose_with_covariance_stamped header_arg pose_with_covariance_arg) =
     Some PoseWithCovarianceStamped"
| "record_class (Composite_vector3 x y z) = Some Vector3"
| "record_class (Composite_transform translation rotation) = Some Transform"
| "record_class (Composite_transform_stamped header_arg child_frame_id transform_arg) =
     Some TransformStamped"
| "record_class (Composite_log header_arg level name msg file function line topics) = Some Log"
| "record_class (Composite_time secs nsecs) = None"
| "record_class (Just v) = None"
| "record_class (Integers lo hi) = None"
| "record_class (Floats lo hi) = None"
| "record_class Text = None"
| "record_class Booleans = None"
| "record_class (Lists elements min_size max_size) = None"

text \<open>
  The parameter names of the composite functions, in the order of their signatures, and
  the type each body asserts of the value drawn for a parameter (\<^verbatim>\<open>None\<close>: the body has no
  assertion for it). A list of drawn values is well typed for a composite when every
  value passes the assertion of its position.
\<close>

fun parameter_names :: "strategy \<Rightarrow> string list" where
  "parameter_names (Composite_time secs nsecs) = [''secs'', ''nsecs'']"
| "parameter_names (Composite_header seq stamp frame_id) = [''seq'', ''stamp'', ''frame_id'']"
| "parameter_names (Composite_point x y z) = [''x'', ''y'', ''z'']"
| "parameter_names (Composite_quaternion x y z w) = [''x'', ''y'', ''z'', ''w'']"
| "parameter_names (Composite_pose position orientation) = [''position'', ''orientation'']"
| "parameter_names (Composite_pose_with_covariance pose_arg covariance) =
     [''pose'', ''covariance'']"
| "parameter_names (Composite_pose_with_covariance_stamped header_arg pose_with_covariance_arg) =
     [''header'', ''pose_with_covariance'']"
| "parameter_names (Composite_vector3 x y z) = [''x'', ''y'', ''z'']"
| "parameter_names (Composite_transform translation rotation) = [''translation'', ''rotation'']"
| "parameter_names (Composite_transform_stamped header_arg child_frame_id transform_arg) =
     [''header'', ''child_frame_id'', ''transform'']"
| "parameter_names (Composite_log header_arg level name msg file function line topics) =
     [''header'', ''level'', ''name'', ''msg'', ''file'', ''function'', ''line'', ''topics'']"
| "parameter_names (Just v) = []"
| "parameter_names (Integers lo hi) = []"
| "parameter_names (Floats lo hi) = []"
| "parameter_names Text = []"
| "parameter_names Booleans = []"
| "parameter_names (Lists elements min_size max_size) = []"

fun checked_types :: "strategy \<Rightarrow> pytype option list" where
  "checked_types (Composite_time secs nsecs) = [None, None]"
| "checked_types (Composite_header seq stamp frame_id) = [None, None, None]"
| "checked_types (Composite_point x y z) = [Some T_float, Some T_float, Some T_float]"
| "checked_types (Composite_quaternion x y z w) =
     [Some T_float, Some T_float, Some T_float, Some T_float]"
| "checked_types (Composite_pose position orientation) =
     [Some (T_namedtuple Point), Some (T_namedtuple Quaternion)]"
| "checked_types (Composite_pose_with_covariance pose_arg covariance) = [None, None]"
| "checked_types (Composite_pose_with_covariance_stamped header_arg pose_with_covariance_arg) =
     [None, None]"
| "checked_types (Composite_vector3 x y z) = [Some T_float, Some T_float, Some T_float]"
| "checked_types (Composite_transform translation rotation) =
     [Some (T_namedtuple Vector3), Some (T_namedtuple Quaternion)]"
| "checked_types (Composite_transform_stamped header_arg child_frame_id transform_arg) =
     [Some (T_namedtuple Header), Some T_str, Some (T_namedtuple Transform)]"
| "checked_types (Composite_log header_arg level name msg file function line topics) =
     [None, Some T_int, Some T_str, Some T_str, Some T_str, Some T_str, Some T_int, Some T_list]"
| "checked_types (Just v) = []"
| "checked_types (Integers lo hi) = []"
| "checked_types (Floats lo hi) = []"
| "checked_types Text = []"
| "checked_types Booleans = []"
| "checked_types (Lists elements min_size max_size) = []"

definition well_typed :: "strategy \<Rightarrow> pyval list \<Rightarrow> bool" where
  "well_typed s vals =
     list_all2 (\<lambda>v t. case t of None \<Rightarrow> True | Some T \<Rightarrow> isinstance v T) vals (checked_types s)"

text \<open>
  Reading a field of a named tuple by its name (\<^verbatim>\<open>record.x\<close>): the item at the position
  the class declares for the name.
\<close>

definition getattr :: "pyval \<Rightarrow> string \<Rightarrow> pyerr + pyval" where
  "getattr v name =
     (case v of
        PyNamedtuple c vals \<Rightarrow>
          (case map_of (zip (field_names c) vals) name of
             None \<Rightarrow> Inl AttributeError
           | Some item \<Rightarrow> Inr item)
      | _ \<Rightarrow> Inl AttributeError)"

text \<open>
  The spec's reading of a draw from a composite: one value from each field generator,
  first to last, each draw starting where the one before it stopped.
\<close>

fun draw_fields :: "'e extern \<Rightarrow> strategy list \<Rightarrow> 'e \<Rightarrow> pyerr + pyval list \<times> 'e" where
  "draw_fields ext [] e = Inr ([], e)"
| "draw_fields ext (s # ss) e =
     (draw_then (draw ext s e) (\<lambda>v e.
      draw_then (draw_fields ext ss e) (\<lambda>vs e.
      Inr (v # vs, e))))"

text \<open>What a draw gives its caller: the value, or the exception.\<close>

definition outcome :: "pyerr + 'a \<times> 'e \<Rightarrow> pyerr + 'a" where
  "outcome r = map_sum id fst r"

text \<open>
  Modelled from the spec: what section 4.1 promises of the values the engine yields for
  a primitive generator. An integer generator "produces an integer value \<^verbatim>\<open>v\<close> with
  \<^verbatim>\<open>min_value <= v <= max_value\<close>", a float generator "a floating-point value within
  range", and an array "a sequence of length \<^verbatim>\<open>n\<close> with \<^verbatim>\<open>min_size <= n <= max_size\<close>".
\<close>

definition in_float_range :: "pyfloat option \<Rightarrow> pyfloat option \<Rightarrow> pyfloat \<Rightarrow> bool" where
  "in_float_range lo hi f =
     ((case lo of None \<Rightarrow> True | Some l \<Rightarrow> float_le l f) \<and>
      (case hi of None \<Rightarrow> True | Some h \<Rightarrow> float_le f h))"

definition in_size_range :: "nat option \<Rightarrow> nat option \<Rightarrow> nat \<Rightarrow> bool" where
  "in_size_range lo hi n =
     ((case lo of None \<Rightarrow> True | Some l \<Rightarrow> l \<le> n) \<and>
      (case hi of None \<Rightarrow> True | Some h \<Rightarrow> n \<le> h))"

definition engine_ok :: "'e extern \<Rightarrow> bool" where
  "engine_ok ext =
     ((\<forall>lo hi e. lo \<le> hi \<longrightarrow>
         lo \<le> fst (draw_integer ext lo hi e) \<and> fst (draw_integer ext lo hi e) \<le> hi) \<and>
      (\<forall>lo hi e. (\<exists>f. in_float_range lo hi f) \<longrightarrow>
         in_float_range lo hi (fst (draw_float ext lo hi e))) \<and>
      (\<forall>lo hi e. (\<exists>n. in_size_range lo hi n) \<longrightarrow>
         in_size_range lo hi (fst (draw_size ext lo hi e))))"

text \<open>
  A strategy all of whose leaf generators are fixed to constants: \<^verbatim>\<open>just(v)\<close>, a bounded
  number with \<^verbatim>\<open>min_value == max_value\<close>, an array of a fixed size over such elements, a
  composite over such fields.
\<close>

fun fixed :: "strategy \<Rightarrow> bool" where
  "fixed (Just v) = True"
| "fixed (Integers lo hi) = (lo = hi)"
| "fixed (Floats lo hi) =
     (case (lo, hi) of (Some a, Some b) \<Rightarrow> a = b \<and> a \<noteq> NaN | _ \<Rightarrow> False)"
| "fixed Text = False"
| "fixed Booleans = False"
| "fixed (Lists elements min_size max_size) =
     (fixed elements \<and> (case (min_size, max_size) of (Some a, Some b) \<Rightarrow> a = b | _ \<Rightarrow> False))"
| "fixed (Composite_time secs nsecs) = (fixed secs \<and> fixed nsecs)"
| "fixed (Composite_header seq stamp frame_id) = (fixed seq \<and> fixed stamp \<and> fixed frame_id)"
| "fixed (Composite_point x y z) = (fixed x \<and> fixed y \<and> fixed z)"
| "fixed (Composite_quaternion x y z w) = (fixed x \<and> fixed y \<and> fixed z \<and> fixed w)"
| "fixed (Composite_pose position orientation) = (fixed position \<and> fixed orientation)"
| "fixed (Composite_pose_with_covariance pose_arg covariance) =
     (fixed pose_arg \<and> fixed covariance)"
| "fixed (Composite_pose_with_covariance_stamped header_arg pose_with_covariance_arg) =
     (fixed header_arg \<and> fixed pose_with_covariance_arg)"
| "fixed (Composite_vector3 x y z) = (fixed x \<and> fixed y \<and> fixed z)"
| "fixed (Composite_transform translation rotation) = (fixed translation \<and> fixed rotation)"
| "fixed (Composite_transform_stamped header_arg child_frame_id transform_arg) =
     (fixed header_arg \<and> fixed child_frame_id \<and> fixed transform_arg)"
| "fixed (Composite_log header_arg level name msg file function line topics) =
     (fixed header_arg \<and> fixed level \<and> fixed name \<and> fixed msg \<and> fixed file \<and>
      fixed function \<and> fixed line \<and> fixed topics)"

text \<open>
  An engine to evaluate with: its state is the list of the natural numbers it will
  choose from, 0 once the list is used up. An integer is the lower bound plus the choice
  reduced to the width of the range, a float the lower bound when there is one, a size
  the lower bound plus the choice, cut at the upper bound.
\<close>

definition next_choice :: "nat list \<Rightarrow> nat \<times> nat list" where
  "next_choice cs = (case cs of [] \<Rightarrow> (0, []) | c # cs' \<Rightarrow> (c, cs'))"

definition list_engine :: "nat list extern" where
  "list_engine =
     \<lparr> draw_integer = (\<lambda>lo hi cs. case next_choice cs of
          (c, cs') \<Rightarrow> (if lo \<le> hi then lo + int c mod (hi - lo + 1) else lo, cs')),
       draw_float = (\<lambda>lo hi cs. case next_choice cs of
          (c, cs') \<Rightarrow> (case lo of Some l \<Rightarrow> l
                        | None \<Rightarrow> (case hi of Some h \<Rightarrow> h | None \<Rightarrow> Finite (of_nat c / 2)), cs')),
       draw_text = (\<lambda>cs. case next_choice cs of (c, cs') \<Rightarrow> (replicate c CHR ''a'', cs')),
       draw_boolean = (\<lambda>cs. case next_choice cs of (c, cs') \<Rightarrow> (odd c, cs')),
       draw_size = (\<lambda>lo hi cs. case next_choice cs of
          (c, cs') \<Rightarrow> (let n = or_default lo 0 + c in
                       case hi of None \<Rightarrow> n | Some h \<Rightarrow> min n h, cs')),
       str_of = (\<lambda>a. ''<object>'') \<rparr>"

section \<open>Strategy objects and default arguments\<close>

text \<open>
  Which strategy object a composite draws from is a matter of identity, so here the
  strategy objects live in a store: the list of the objects constructed so far, an
  object's reference being its position. A strategy object is never assigned to by the
  message modules, so the store only grows. A list strategy refers to its element
  strategy, and the strategy a \<^verbatim>\<open>@composite\<close> function returns holds the function and the
  arguments it was called with (\<^verbatim>\<open>None\<close> at a position: no argument passed there).
\<close>

type_synonym ref = nat

datatype function_name =
    F_time | F_header | F_point | F_quaternion | F_pose | F_pose_with_covariance
  | F_pose_with_covariance_stamped | F_vector3 | F_transform | F_transform_stamped | F_log

datatype strategy_object =
    Primitive_object strategy
  | Lists_object ref "nat option" "nat option"
  | Composite_object function_name "ref option list"

text \<open>
  The state of the loaded modules: the store, and for every composite function the
  default values of its parameters (Python's \<^verbatim>\<open>__defaults__\<close>), which are references.
\<close>

record module_state =
  objects :: "strategy_object list"
  defaults :: "function_name \<Rightarrow> ref list"

text \<open>
  Constructing a strategy object; calling a composite function, which constructs the
  composite strategy and evaluates nothing else; \<^verbatim>\<open>array(elements=..., ...)\<close>, which
  constructs the element strategy and then the list strategy.
\<close>

definition new_object :: "strategy_object \<Rightarrow> module_state \<Rightarrow> ref \<times> module_state" where
  "new_object ob m = (length (objects m), m\<lparr>objects := objects m @ [ob]\<rparr>)"

definition call :: "function_name \<Rightarrow> ref option list \<Rightarrow> module_state \<Rightarrow> ref \<times> module_state" where
  "call f args m = new_object (Composite_object f args) m"

definition array_object ::
  "(module_state \<Rightarrow> ref \<times> module_state) \<Rightarrow> nat option \<Rightarrow> nat option \<Rightarrow> module_state
     \<Rightarrow> ref \<times> module_state" where
  "array_object elements min_size max_size m =
     (case elements m of (r, m') \<Rightarrow> new_object (Lists_object r min_size max_size) m')"

text \<open>
  \<^verbatim>\<open>def f(draw, p1=e1, ..., pn=en)\<close>: Python evaluates the default expressions once, left
  to right, when the \<^verbatim>\<open>def\<close> statement runs, and keeps the resulting objects with the
  function.
\<close>

fun eval_defaults ::
  "(module_state \<Rightarrow> ref \<times> module_state) list \<Rightarrow> module_state \<Rightarrow> ref list \<times> module_state" where
  "eval_defaults [] m = ([], m)"
| "eval_defaults (x # xs) m =
     (case x m of (r, m1) \<Rightarrow> case eval_defaults xs m1 of (rs, m2) \<Rightarrow> (r # rs, m2))"

definition define_function ::
  "function_name \<Rightarrow> (module_state \<Rightarrow> ref \<times> module_state) list \<Rightarrow> module_state \<Rightarrow> module_state" where
  "define_function f default_exprs m =
     (case eval_defaults default_exprs m of (rs, m') \<Rightarrow> m'\<lparr>defaults := (defaults m')(f := rs)\<rparr>)"

text \<open>
  Loading the modules runs their \<^verbatim>\<open>def\<close> statements in the order written; an imported
  module is loaded once, before the importing one. The signatures are those of
  geometry\_messages.py and rosgraph\_msgs.py.

  Modelled from the spec: the signatures \<^verbatim>\<open>time(secs=uint32(), nsecs=uint32())\<close> of
  message\_fields.py and \<^verbatim>\<open>header(seq=uint32(), stamp=time(), frame_id=string())\<close> of
  std\_msgs.py, which are not among the sources.
\<close>

definition load_message_fields :: "module_state \<Rightarrow> module_state" where
  "load_message_fields m =
     define_function F_time
       [new_object (Primitive_object uint32_default), new_object (Primitive_object uint32_default)] m"

definition load_std_msgs :: "module_state \<Rightarrow> module_state" where
  "load_std_msgs m =
     define_function F_header
       [new_object (Primitive_object uint32_default), call F_time [],
        new_object (Primitive_object string_default)] m"

definition load_geometry_messages :: "module_state \<Rightarrow> module_state" where
  "load_geometry_messages m =
     (let float64_call = new_object (Primitive_object float64_default);
          m = define_function F_point [float64_call, float64_call, float64_call] m;
          m = define_function F_quaternion [float64_call, float64_call, float64_call, float64_call] m;
          m = define_function F_pose [call F_point [], call F_quaternion []] m;
          m = define_function F_pose_with_covariance
                [call F_pose [], array_object float64_call (Some 36) (Some 36)] m;
          m = define_function F_pose_with_covariance_stamped
                [call F_header [], call F_pose_with_covariance []] m;
          m = define_function F_vector3 [float64_call, float64_call, float64_call] m;
          m = define_function F_transform [call F_vector3 [], call F_quaternion []] m;
          m = define_function F_transform_stamped
                [call F_header [], new_object (Primitive_object string_default),
                 call F_transform []] m
      in m)"

definition load_rosgraph_msgs :: "module_state \<Rightarrow> module_state" where
  "load_rosgraph_msgs m =
     (let string_call = new_object (Primitive_object string_default) in
      define_function F_log
        [call F_header [], new_object (Primitive_object uint8_default), string_call, string_call,
         string_call, string_call, new_object (Primitive_object uint32_default),
         array_object string_call None None] m)"

definition loaded :: module_state where
  "loaded =
     load_rosgraph_msgs (load_geometry_messages (load_std_msgs (load_message_fields
       \<lparr>objects = [], defaults = (\<lambda>f. [])\<rparr>)))"

text \<open>
  Binding the parameters when the body runs: a parameter takes the argument passed for
  it and otherwise the function's default object. More arguments than parameters is an
  error.
\<close>

definition bind_args :: "ref list \<Rightarrow> ref option list \<Rightarrow> ref list option" where
  "bind_args dflts args =
     (if length args \<le> length dflts
      then Some (map2 or_default (args @ replicate (length dflts - length args) None) dflts)
      else None)"

text \<open>
  The strategy value an object stands for: the objects it refers to, read out of the
  store. An object refers only to objects constructed before it.
\<close>

definition composite_of :: "function_name \<Rightarrow> strategy list \<Rightarrow> strategy option" where
  "composite_of f bound =
     (case f of
        F_time \<Rightarrow> (case bound of [secs, nsecs] \<Rightarrow> Some (Composite_time secs nsecs) | _ \<Rightarrow> None)
      | F_header \<Rightarrow>
          (case bound of [seq, stamp, frame_id] \<Rightarrow> Some (Composite_header seq stamp frame_id)
           | _ \<Rightarrow> None)
      | F_point \<Rightarrow> (case bound of [x, y, z] \<Rightarrow> Some (Composite_point x y z) | _ \<Rightarrow> None)
      | F_quaternion \<Rightarrow>
          (case bound of [x, y, z, w] \<Rightarrow> Some (Composite_quaternion x y z w) | _ \<Rightarrow> None)
      | F_pose \<Rightarrow>
          (case bound of [position, orientation] \<Rightarrow> Some (Composite_pose position orientation)
           | _ \<Rightarrow> None)
      | F_pose_with_covariance \<Rightarrow>
          (case bound of [pose_arg, covariance] \<Rightarrow>
             Some (Composite_pose_with_covariance pose_arg covariance)
           | _ \<Rightarrow> None)
      | F_pose_with_covariance_stamped \<Rightarrow>
          (case bound of [header_arg, pose_with_covariance_arg] \<Rightarrow>
             Some (Composite_pose_with_covariance_stamped header_arg pose_with_covariance_arg)
           | _ \<Rightarrow> None)
      | F_vector3 \<Rightarrow> (case bound of [x, y, z] \<Rightarrow> Some (Composite_vector3 x y z) | _ \<Rightarrow> None)
      | F_transform \<Rightarrow>
          (case bound of [translation, rotation] \<Rightarrow> Some (Composite_transform translation rotation)
           | _ \<Rightarrow> None)
      | F_transform_stamped \<Rightarrow>
          (case bound of [header_arg, child_frame_id, transform_arg] \<Rightarrow>
             Some (Composite_transform_stamped header_arg child_frame_id transform_arg)
           | _ \<Rightarrow> None)
      | F_log \<Rightarrow>
          (case bound of [header_arg, level, name, msg, file, function, line, topics] \<Rightarrow>
             Some (Composite_log header_arg level name msg file function line topics)
           | _ \<Rightarrow> None))"

function strategy_of :: "module_state \<Rightarrow> ref \<Rightarrow> strategy option" where
  "strategy_of m r =
     (if r < length (objects m) then
        (case objects m ! r of
           Primitive_object s \<Rightarrow> Some s
         | Lists_object elements min_size max_size \<Rightarrow>
             (if elements < r
              then map_option (\<lambda>s. Lists s min_size max_size) (strategy_of m elements)
              else None)
         | Composite_object f args \<Rightarrow>
             (case bind_args (defaults m f) args of
                None \<Rightarrow> None
              | Some bound \<Rightarrow>
                  (if \<forall>c \<in> set bound. c < r
                   then (case those (map (strategy_of m) bound) of
                           None \<Rightarrow> None
                         | Some ss \<Rightarrow> composite_of f ss)
                   else None)))
      else None)"
  by pat_completeness auto
termination
  by (relation "measure snd") auto

declare strategy_of.simps [simp del]

text \<open>
  Drawing from a strategy object, with the store threaded through: the draw takes the
  store and the engine's state and returns the value together with the store and the
  engine's state it leaves. A primitive object is the engine's to draw from. A list
  object has the engine choose a size and draws that many times from its element object.
  A composite object runs the body of its function: the parameters are bound, the bound
  objects are drawn from in the order of the signature, and then the assertions and the
  \<^verbatim>\<open>return\<close> of the body run on the values drawn (\<open>run_body\<close>: the body of \<open>draw\<close>
  above, entered with strategies that yield exactly these values, so that it draws
  nothing more from the engine).
\<close>

definition run_body ::
  "'e extern \<Rightarrow> function_name \<Rightarrow> pyval list \<Rightarrow> module_state \<times> 'e
     \<Rightarrow> pyerr + pyval \<times> module_state \<times> 'e" where
  "run_body ext f vals st =
     (case composite_of f (map Just vals) of
        None \<Rightarrow> Inl TypeError
      | Some s \<Rightarrow>
          (case draw ext s (snd st) of
             Inl err \<Rightarrow> Inl err
           | Inr (v, e') \<Rightarrow> Inr (v, fst st, e')))"

function draw_ref ::
    "'e extern \<Rightarrow> ref \<Rightarrow> module_state \<times> 'e \<Rightarrow> pyerr + pyval \<times> module_state \<times> 'e"
  and draw_refs ::
    "'e extern \<Rightarrow> ref list \<Rightarrow> module_state \<times> 'e \<Rightarrow> pyerr + pyval list \<times> module_state \<times> 'e"
  and draw_ref_times ::
    "'e extern \<Rightarrow> ref \<Rightarrow> nat \<Rightarrow> module_state \<times> 'e \<Rightarrow> pyerr + pyval list \<times> module_state \<times> 'e"
where
  "draw_ref ext r (m, e) =
     (if r < length (objects m) then
        (case objects m ! r of
           Primitive_object s \<Rightarrow>
             (case draw ext s e of Inl err \<Rightarrow> Inl err | Inr (v, e') \<Rightarrow> Inr (v, m, e'))
         | Lists_object elements min_size max_size \<Rightarrow>
             (if elements < r then
                (case draw_size ext min_size max_size e of
                   (n, e') \<Rightarrow>
                     draw_then (draw_ref_times ext elements n (m, e')) (\<lambda>vs st. Inr (PyList vs, st)))
              else Inl TypeError)
         | Composite_object f args \<Rightarrow>
             (case bind_args (defaults m f) args of
                None \<Rightarrow> Inl TypeError
              | Some bound \<Rightarrow>
                  (if \<forall>c \<in> set bound. c < r
                   then draw_then (draw_refs ext bound (m, e)) (\<lambda>vals st. run_body ext f vals st)
                   else Inl TypeError)))
      else Inl TypeError)"
| "draw_refs ext [] st = Inr ([], st)"
| "draw_refs ext (r # rs) st =
     (draw_then (draw_ref ext r st) (\<lambda>v st.
      draw_then (draw_refs ext rs st) (\<lambda>vs st.
      Inr (v # vs, st))))"
| "draw_ref_times ext r 0 st = Inr ([], st)"
| "draw_ref_times ext r (Suc n) st =
     (draw_then (draw_ref ext r st) (\<lambda>v st.
      draw_then (draw_ref_times ext r n st) (\<lambda>vs st.
      Inr (v # vs, st))))"
  by pat_completeness auto
termination
proof (relation "measures
    [\<lambda>x. case x of
        Inl (ext, r, st) \<Rightarrow> Suc r
      | Inr (Inl (ext, rs, st)) \<Rightarrow> Max (insert 0 (Suc ` set rs))
      | Inr (Inr (ext, r, n, st)) \<Rightarrow> Suc r,
     \<lambda>x. case x of
        Inl (ext, r, st) \<Rightarrow> 0
      | Inr (Inl (ext, rs, st)) \<Rightarrow> Suc (length rs)
      | Inr (Inr (ext, r, n, st)) \<Rightarrow> Suc n]", goal_cases)
  case 1
  show ?case by simp
next
  case 2
  then show ?case by simp
next
  case 3
  then show ?case by (auto simp: less_Suc_eq_le)
next
  case (4 ext r rs st)
  define M where "M = Max (insert (Suc r) (Suc ` set rs))"
  have "Suc r \<le> M"
    unfolding M_def by (intro Max_ge) auto
  then show ?case
    by (auto simp: M_def [symmetric])
next
  case (5 ext r rs st v st1)
  define M where "M = Max (insert (Suc r) (Suc ` set rs))"
  define N where "N = Max (insert 0 (Suc ` set rs))"
  have "N \<le> M"
    unfolding M_def N_def by (intro Max.boundedI) (auto intro: Max_ge le_SucI simp: Max_ge_iff)
  then show ?case
    by (auto simp: M_def [symmetric] N_def [symmetric])
next
  case 6
  show ?case by simp
next
  case 7
  show ?case by simp
qed

declare draw_ref.simps [simp del]

text \<open>A result of the value-level \<open>draw\<close>, with a store put beside the engine's state.\<close>

definition with_store :: "module_state \<Rightarrow> pyerr + 'a \<times> 'e \<Rightarrow> pyerr + 'a \<times> module_state \<times> 'e" where
  "with_store m r = (case r of Inl err \<Rightarrow> Inl err | Inr (v, e) \<Rightarrow> Inr (v, m, e))"

text \<open>
  What code using the modules does with strategy objects: it constructs strategies of its
  own (the overrides), calls the composite functions, and draws. A run of such actions
  records the reference each construction or call returned and the value or exception
  each draw gave; an exception ends that draw only.
\<close>

datatype action = Construct strategy_object | Call function_name "ref option list" | Draw ref

datatype result = Made ref | Drew "pyerr + pyval"

fun objects_made :: "action list \<Rightarrow> strategy_object list" where
  "objects_made [] = []"
| "objects_made (Construct ob # actions) = ob # objects_made actions"
| "objects_made (Call f args # actions) = Composite_object f args # objects_made actions"
| "objects_made (Draw r # actions) = objects_made actions"

fun run :: "'e extern \<Rightarrow> action list \<Rightarrow> module_state \<times> 'e \<Rightarrow> result list \<times> module_state \<times> 'e" where
  "run ext [] st = ([], st)"
| "run ext (Construct ob # actions) (m, e) =
     (case new_object ob m of
        (r, m1) \<Rightarrow> case run ext actions (m1, e) of (results, st) \<Rightarrow> (Made r # results, st))"
| "run ext (Call f args # actions) (m, e) =
     (case call f args m of
        (r, m1) \<Rightarrow> case run ext actions (m1, e) of (results, st) \<Rightarrow> (Made r # results, st))"
| "run ext (Draw r # actions) st =
     (case draw_ref ext r st of
        Inl err \<Rightarrow>
          (case run ext actions st of (results, st') \<Rightarrow> (Drew (Inl err) # results, st'))
      | Inr (v, st1) \<Rightarrow>
          (case run ext actions st1 of (results, st') \<Rightarrow> (Drew (Inr v) # results, st')))"

text \<open>
  How a recorded result answers its action, for a run from the store \<open>m\<close> to the store
  \<open>m'\<close>: a construction or call returned the reference of an object made during the run,
  and a draw gave what drawing from its object gives in some store that extends \<open>m\<close>.
\<close>

definition result_of ::
  "'e extern \<Rightarrow> module_state \<Rightarrow> module_state \<Rightarrow> action \<Rightarrow> result \<Rightarrow> bool" where
  "result_of ext m m' a res =
     (case a of
        Construct ob \<Rightarrow>
          (\<exists>r. res = Made r \<and> length (objects m) \<le> r \<and> r < length (objects m') \<and>
             objects m' ! r = ob)
      | Call f args \<Rightarrow>
          (\<exists>r. res = Made r \<and> length (objects m) \<le> r \<and> r < length (objects m') \<and>
             objects m' ! r = Composite_object f args)
      | Draw r \<Rightarrow>
          (\<exists>mk ek new. defaults mk = defaults m \<and> objects mk = objects m @ new \<and>
             res = Drew (outcome (draw_ref ext r (mk, ek)))))"

section \<open>Sequencing, assertions and messages\<close>

lemma draw_then_simps [simp]:
  "draw_then (Inl err) rest = Inl err"
  "draw_then (Inr (v, e)) rest = rest v e"
  by (simp_all add: draw_then_def)

lemma draw_then_Inr:
  "draw_then m rest = Inr r \<longleftrightarrow> (\<exists>v e. m = Inr (v, e) \<and> rest v e = Inr r)"
  by (auto simp: draw_then_def split: sum.splits)

lemma draw_then_Inl:
  "draw_then m rest = Inl err \<longleftrightarrow> m = Inl err \<or> (\<exists>v e. m = Inr (v, e) \<and> rest v e = Inl err)"
  by (auto simp: draw_then_def split: sum.splits)

lemma py_assert_Inr: "py_assert cond message rest = Inr x \<longleftrightarrow> cond \<and> rest = Inr x"
  by (auto simp: py_assert_def split: sum.splits)

lemma py_assert_KeyError:
  "py_assert cond (Inl (KeyError k)) rest = (if cond then rest else Inl (KeyError k))"
  by (simp add: py_assert_def)

text \<open>
  Every message expression of the two modules names its replacement fields
  (\<^verbatim>\<open>{x_value}\<close>, \<^verbatim>\<open>{x}\<close>) and passes its arguments by position, so evaluating it raises
  \<^verbatim>\<open>KeyError\<close> on the first field, whatever the arguments are.
\<close>

lemma assertion_messages:
  "str_format r ''drew invalid child_frame_id={child_frame_id_value} from {child_frame_id} for string field'' [a, b] = Inl (KeyError ''child_frame_id_value'')"
  "str_format r ''drew invalid file={file_value} from {file} for string field'' [a, b] = Inl (KeyError ''file_value'')"
  "str_format r ''drew invalid function={function_value} from {function} for string field'' [a, b] = Inl (KeyError ''function_value'')"
  "str_format r ''drew invalid header={header_value} from {header} for _Header field'' [a, b] = Inl (KeyError ''header_value'')"
  "str_format r ''drew invalid level={level_value} from {level} for int field'' [a, b] = Inl (KeyError ''level_value'')"
  "str_format r ''drew invalid line={line_value} from {line} for int field'' [a, b] = Inl (KeyError ''line_value'')"
  "str_format r ''drew invalid msg={msg_value} from {msg} for string field'' [a, b] = Inl (KeyError ''msg_value'')"
  "str_format r ''drew invalid name={name_value} from {name} for string field'' [a, b] = Inl (KeyError ''name_value'')"
  "str_format r ''drew invalid orientation={orientation_value} from {orientation} for _Quaternion field'' [a, b] = Inl (KeyError ''orientation_value'')"
  "str_format r ''drew invalid position={position_value} from {position} for _Point field'' [a, b] = Inl (KeyError ''position_value'')"
  "str_format r ''drew invalid rotation={rotation_value} from {rotation} for _Quaternion field'' [a, b] = Inl (KeyError ''rotation_value'')"
  "str_format r ''drew invalid topics={topics_value} from {msg} for list field'' [a, b] = Inl (KeyError ''topics_value'')"
  "str_format r ''drew invalid transform={transform_value} from {transform} for _Transform field'' [a, b] = Inl (KeyError ''transform_value'')"
  "str_format r ''drew invalid translation={translation_value} from {translation} for _Vector3 field'' [a, b] = Inl (KeyError ''translation_value'')"
  "str_format r ''drew invalid x={x_value} from {x} for float64 field'' [a, b] = Inl (KeyError ''x_value'')"
  "str_format r ''drew invalid y={w_value} from {w} for float64 field'' [a, b] = Inl (KeyError ''w_value'')"
  "str_format r ''drew invalid y={y_value} from {y} for float64 field'' [a, b] = Inl (KeyError ''y_value'')"
  "str_format r ''drew invalid y={z_value} from {z} for float64 field'' [a, b] = Inl (KeyError ''z_value'')"
  by (simp_all add: str_format_def get_field_def field_key_def is_digit_def)

lemma outcome_simps [simp]:
  "outcome (Inl err) = Inl err"
  "outcome (Inr (v, e)) = Inr v"
  by (simp_all add: outcome_def)

lemma outcome_draw_then:
  "outcome m1 = outcome m2 \<Longrightarrow> (\<And>v e e'. outcome (rest v e) = outcome (rest v e'))
     \<Longrightarrow> outcome (draw_then m1 rest) = outcome (draw_then m2 rest)"
  by (cases m1; cases m2) auto

lemma outcome_py_assert:
  "outcome r1 = outcome r2 \<Longrightarrow> outcome (py_assert c m r1) = outcome (py_assert c m r2)"
  by (auto simp: py_assert_def split: sum.splits)

section \<open>Draws from a composite, field by field\<close>

lemma composite_draw:
  "record_class s = Some c \<Longrightarrow> draw ext s e = Inr (v, e') \<Longrightarrow>
     \<exists>vals. draw_fields ext (field_strategies s) e = Inr (vals, e') \<and> v = PyNamedtuple c vals \<and>
       length vals = length (field_names c)"
  by (cases s) (auto simp: draw_then_Inr py_assert_Inr)

lemma composite_draw_fails:
  "record_class s = Some c \<Longrightarrow> draw_fields ext (field_strategies s) e = Inl err
     \<Longrightarrow> draw ext s e = Inl err"
  by (cases s) (auto simp: draw_then_def split: sum.splits)

lemma field_strategies_arity:
  "record_class s = Some c \<Longrightarrow> length (field_strategies s) = length (field_names c)"
  by (cases s) auto

lemma draw_fields_nth:
  "draw_fields ext fs e = Inr (vals, e') \<Longrightarrow> i < length fs
     \<Longrightarrow> length vals = length fs \<and> (\<exists>ei ei'. draw ext (fs ! i) ei = Inr (vals ! i, ei'))"
proof (induction fs arbitrary: e vals i)
  case Nil
  then show ?case by simp
next
  case (Cons s ss)
  from Cons.prems(1) obtain v e1 vs where
    s: "draw ext s e = Inr (v, e1)" and ss: "draw_fields ext ss e1 = Inr (vs, e')"
    and vals: "vals = v # vs"
    by (auto simp: draw_then_Inr)
  show ?case
  proof (cases i)
    case 0
    have "length vs = length ss"
    proof (cases ss)
      case Nil
      with ss show ?thesis by simp
    next
      case (Cons t ts)
      with Cons.IH [OF ss, of 0] show ?thesis by simp
    qed
    with 0 s vals show ?thesis by auto
  next
    case (Suc j)
    with Cons.prems(2) have "j < length ss" by simp
    from Cons.IH [OF ss this] Suc vals show ?thesis by simp
  qed
qed

section \<open>The engine's promises\<close>

lemma float_le_antisym: "float_le a b \<Longrightarrow> float_le b a \<Longrightarrow> a = b"
  by (cases a; cases b) auto

lemma float_le_refl: "a \<noteq> NaN \<Longrightarrow> float_le a a"
  by (cases a) auto

lemma list_engine_ok: "engine_ok list_engine"
proof -
  have i: "lo \<le> hi \<Longrightarrow> lo \<le> lo + int c mod (hi - lo + 1) \<and> lo + int c mod (hi - lo + 1) \<le> hi"
    for lo hi :: int and c :: nat
    using pos_mod_bound [of "hi - lo + 1" "int c"] pos_mod_sign [of "hi - lo + 1" "int c"]
    by simp
  have t: "float_le a f \<Longrightarrow> float_le f b \<Longrightarrow> float_le a b" for a f b
    by (cases a; cases f; cases b) auto
  have r: "float_le a f \<Longrightarrow> float_le a a" for a f
    by (cases a; cases f) auto
  have r': "float_le f a \<Longrightarrow> float_le a a" for a f
    by (cases a; cases f) auto
  show ?thesis
    unfolding engine_ok_def list_engine_def
    by (auto simp: next_choice_def in_float_range_def in_size_range_def or_default_def i
          split: list.splits option.splits intro: t r r')
qed

lemma fixed_integer: "engine_ok ext \<Longrightarrow> fst (draw_integer ext k k e) = k"
  unfolding engine_ok_def by (meson order_refl order_antisym)

lemma fixed_float:
  assumes ok: "engine_ok ext" and k: "k \<noteq> NaN"
  shows "fst (draw_float ext (Some k) (Some k) e) = k"
proof -
  have "in_float_range (Some k) (Some k) k"
    using k by (simp add: in_float_range_def float_le_refl)
  with ok have "in_float_range (Some k) (Some k) (fst (draw_float ext (Some k) (Some k) e))"
    unfolding engine_ok_def by blast
  then show ?thesis
    by (simp add: in_float_range_def float_le_antisym)
qed

lemma fixed_size:
  assumes ok: "engine_ok ext"
  shows "fst (draw_size ext (Some n) (Some n) e) = n"
proof -
  have "in_size_range (Some n) (Some n) n"
    by (simp add: in_size_range_def)
  with ok have "in_size_range (Some n) (Some n) (fst (draw_size ext (Some n) (Some n) e))"
    unfolding engine_ok_def by blast
  then show ?thesis
    by (simp add: in_size_range_def)
qed

section \<open>Lists\<close>

lemma draw_elements_length:
  "draw_elements ext s n e = Inr (vs, e') \<Longrightarrow> length vs = n"
  by (induction n arbitrary: e vs) (auto simp: draw_then_Inr)

lemma draw_elements_total:
  assumes "\<And>e. \<exists>v e'. draw ext s e = Inr (v, e')"
  shows "\<exists>vs e'. draw_elements ext s n e = Inr (vs, e')"
proof (induction n arbitrary: e)
  case 0
  show ?case by simp
next
  case (Suc n)
  from assms obtain v e1 where "draw ext s e = Inr (v, e1)" by blast
  moreover from Suc obtain vs e2 where "draw_elements ext s n e1 = Inr (vs, e2)" by blast
  ultimately show ?case by simp
qed

lemma draw_elements_constant:
  assumes "\<And>e. outcome (draw ext s e) = Inr c"
  shows "outcome (draw_elements ext s n e) = Inr (replicate n c)"
proof (induction n arbitrary: e)
  case 0
  show ?case by simp
next
  case (Suc n)
  from assms [of e] obtain e1 where 1: "draw ext s e = Inr (c, e1)"
    by (cases "draw ext s e") (auto simp: outcome_def)
  from Suc [of e1] obtain e2 where "draw_elements ext s n e1 = Inr (replicate n c, e2)"
    by (cases "draw_elements ext s n e1") (auto simp: outcome_def)
  with 1 show ?case by simp
qed

section \<open>Strategies fixed to constants\<close>

lemma fixed_outcome_elements:
  assumes "\<And>e1 e2. outcome (draw ext s e1) = outcome (draw ext s e2)"
  shows "outcome (draw_elements ext s n e1) = outcome (draw_elements ext s n e2)"
proof (induction n arbitrary: e1 e2)
  case 0
  show ?case by simp
next
  case (Suc n)
  show ?case
    by (simp, rule outcome_draw_then, rule assms, rule outcome_draw_then, rule Suc.IH, simp)
qed

lemma fixed_outcome:
  "engine_ok ext \<Longrightarrow> fixed s \<Longrightarrow> outcome (draw ext s e1) = outcome (draw ext s e2)"
proof (induction s arbitrary: e1 e2)
  case (Just v)
  show ?case by simp
next
  case (Integers lo hi)
  then show ?case by (simp add: split_beta fixed_integer)
next
  case (Floats lo hi)
  then show ?case by (auto simp: split_beta fixed_float split: option.splits)
next
  case (Lists s lo hi)
  then have el: "\<And>e1 e2. outcome (draw ext s e1) = outcome (draw ext s e2)"
    by simp
  from Lists.prems obtain n where n: "lo = Some n" "hi = Some n"
    by (auto split: option.splits)
  show ?case
    unfolding n
    by (simp add: split_beta fixed_size [OF Lists.prems(1)], rule outcome_draw_then,
        rule fixed_outcome_elements [OF el], simp)
qed (simp_all, (intro outcome_draw_then outcome_py_assert; simp)+)

section \<open>No draw raises AssertionError\<close>

lemma no_assertion_error_elements:
  assumes "\<And>e. draw ext s e \<noteq> Inl (AssertionError msg)"
  shows "draw_elements ext s n e \<noteq> Inl (AssertionError msg)"
  using assms by (induction n arbitrary: e) (auto simp: draw_then_Inl)

lemma no_assertion_error: "draw ext s e \<noteq> Inl (AssertionError msg)"
proof (induction s arbitrary: e)
  case (Lists s lo hi)
  then show ?case
    using no_assertion_error_elements [of ext s msg]
    by (auto simp: split_beta draw_then_Inl)
qed (auto simp: split_beta draw_then_Inl assertion_messages py_assert_KeyError)

section \<open>Unfolding the constructors\<close>

lemmas callables = point_def quaternion_def pose_def pose_with_covariance_def
  pose_with_covariance_stamped_def vector3_def transform_def transform_stamped_def
  log_message_def header_def time_def or_default_def

lemmas default_values = float64_default_def string_default_def uint8_default_def
  uint32_default_def topics_default_def covariance_default_def

section \<open>The store only grows\<close>

lemma new_object_simps [simp]:
  "fst (new_object ob m) = length (objects m)"
  "objects (snd (new_object ob m)) = objects m @ [ob]"
  "defaults (snd (new_object ob m)) = defaults m"
  by (simp_all add: new_object_def)

lemma strategy_of_extend:
  assumes "objects m' = objects m @ new" and "defaults m' = defaults m"
  shows "r < length (objects m) \<Longrightarrow> strategy_of m' r = strategy_of m r"
proof (induction r rule: less_induct)
  case (less r)
  have obj: "objects m' ! r = objects m ! r" and len: "r < length (objects m')"
    using less.prems assms(1) by (simp_all add: nth_append)
  have child: "strategy_of m' c = strategy_of m c" if "c < r" for c
    using less.IH [OF that] that less.prems by simp
  have children: "map (strategy_of m') bound = map (strategy_of m) bound"
    if "\<forall>c \<in> set bound. c < r" for bound
    using that child by (intro map_cong) auto
  show ?case
    unfolding strategy_of.simps [of m' r] strategy_of.simps [of m r]
    using less.prems len obj assms(2) child
    by (auto simp: children split: strategy_object.splits option.splits cong: if_cong)
qed

lemma bind_args_default:
  "bind_args dflts args = Some bound \<Longrightarrow> i < length bound \<Longrightarrow> (i < length args \<longrightarrow> args ! i = None)
     \<Longrightarrow> length bound = length dflts \<and> bound ! i = dflts ! i"
  by (auto simp: bind_args_def or_default_def nth_append split: if_splits)

lemma loaded_objects: "length (objects loaded) = 36"
  by (simp add: loaded_def load_message_fields_def load_std_msgs_def load_geometry_messages_def
      load_rosgraph_msgs_def define_function_def new_object_def call_def array_object_def Let_def)

lemma loaded_defaults:
  "defaults loaded F_time = [0, 1]"
  "defaults loaded F_header = [2, 3, 4]"
  "defaults loaded F_point = [5, 6, 7]"
  "defaults loaded F_quaternion = [8, 9, 10, 11]"
  "defaults loaded F_pose = [12, 13]"
  "defaults loaded F_pose_with_covariance = [14, 16]"
  "defaults loaded F_pose_with_covariance_stamped = [17, 18]"
  "defaults loaded F_vector3 = [19, 20, 21]"
  "defaults loaded F_transform = [22, 23]"
  "defaults loaded F_transform_stamped = [24, 25, 26]"
  "defaults loaded F_log = [27, 28, 29, 30, 31, 32, 33, 35]"
  by (simp_all add: loaded_def load_message_fields_def load_std_msgs_def load_geometry_messages_def
      load_rosgraph_msgs_def define_function_def new_object_def call_def array_object_def Let_def)

lemma loaded_defaults_exist: "r \<in> set (defaults loaded f) \<Longrightarrow> r < length (objects loaded)"
  by (cases f) (auto simp: loaded_defaults loaded_objects)

lemma loaded_objects_list:
  "objects loaded =
    [Primitive_object uint32_default, Primitive_object uint32_default,
     Primitive_object uint32_default, Composite_object F_time [],
     Primitive_object string_default,
     Primitive_object float64_default, Primitive_object float64_default,
     Primitive_object float64_default,
     Primitive_object float64_default, Primitive_object float64_default,
     Primitive_object float64_default, Primitive_object float64_default,
     Composite_object F_point [], Composite_object F_quaternion [],
     Composite_object F_pose [], Primitive_object float64_default,
     Lists_object 15 (Some 36) (Some 36),
     Composite_object F_header [], Composite_object F_pose_with_covariance [],
     Primitive_object float64_default, Primitive_object float64_default,
     Primitive_object float64_default,
     Composite_object F_vector3 [], Composite_object F_quaternion [],
     Composite_object F_header [], Primitive_object string_default,
     Composite_object F_transform [],
     Composite_object F_header [], Primitive_object uint8_default,
     Primitive_object string_default, Primitive_object string_default,
     Primitive_object string_default, Primitive_object string_default,
     Primitive_object uint32_default, Primitive_object string_default,
     Lists_object 34 None None]"
  by (simp add: loaded_def load_message_fields_def load_std_msgs_def load_geometry_messages_def
      load_rosgraph_msgs_def define_function_def new_object_def call_def array_object_def Let_def)

text \<open>
  The default objects stand for the default strategies of the composite constructors
  above.
\<close>

lemma loaded_strategies:
  "strategy_of loaded 12 = Some (point None None None)"
  "strategy_of loaded 14 = Some (pose None None)"
  "strategy_of loaded 16 = Some covariance_default"
  "strategy_of loaded 18 = Some (pose_with_covariance None None)"
  "strategy_of loaded 26 = Some (transform None None)"
  "strategy_of loaded 27 = Some (header None None None)"
  "strategy_of loaded 35 = Some topics_default"
  by (simp_all add: strategy_of.simps loaded_objects_list loaded_defaults bind_args_def
      composite_of_def callables default_values)

section \<open>Well-typed field values\<close>

lemma composite_draw_iff:
  "record_class s = Some c \<Longrightarrow>
     draw ext s e = Inr (v, e') \<longleftrightarrow>
       (\<exists>vals. draw_fields ext (field_strategies s) e = Inr (vals, e') \<and> well_typed s vals \<and>
          v = PyNamedtuple c vals)"
  by (cases s) (auto simp: draw_then_Inr py_assert_Inr well_typed_def)

lemma parameter_names_fields:
  "record_class s = Some c \<Longrightarrow>
     (c \<noteq> PoseWithCovarianceStamped \<longrightarrow> parameter_names s = field_names c) \<and>
     (c = PoseWithCovarianceStamped \<longrightarrow>
        parameter_names s = [''header'', ''pose_with_covariance''] \<and>
        field_names c = [''header'', ''pose''])"
  by (cases s) auto

lemma getattr_nth:
  assumes "length vals = length (field_names c)" and "i < length vals"
  shows "getattr (PyNamedtuple c vals) (field_names c ! i) = Inr (vals ! i)"
proof -
  have "distinct (field_names c)"
    by (cases c) auto
  with assms have "map_of (zip (field_names c) vals) (field_names c ! i) = Some (vals ! i)"
    by (intro map_of_zip_nth) auto
  then show ?thesis
    by (simp add: getattr_def)
qed

lemma default_draws_return:
  "\<exists>vals e'. draw ext (time None None) e = Inr (PyTuple vals, e')"
  "\<exists>vals e'. draw ext (header None None None) e = Inr (PyNamedtuple Header vals, e')"
  "\<exists>vals e'. draw ext (point None None None) e = Inr (PyNamedtuple Point vals, e')"
  "\<exists>vals e'. draw ext (quaternion None None None None) e = Inr (PyNamedtuple Quaternion vals, e')"
  "\<exists>vals e'. draw ext (pose None None) e = Inr (PyNamedtuple Pose vals, e')"
  "\<exists>vals e'. draw ext (vector3 None None None) e = Inr (PyNamedtuple Vector3 vals, e')"
  "\<exists>vals e'. draw ext (transform None None) e = Inr (PyNamedtuple Transform vals, e')"
  "\<exists>vals e'. draw ext (transform_stamped None None None) e =
      Inr (PyNamedtuple TransformStamped vals, e')"
  by (simp_all add: callables default_values split_beta isinstance_def py_assert_def)

lemma default_lists_return:
  "\<exists>vals e'. draw ext covariance_default e = Inr (PyList vals, e')"
  "\<exists>vals e'. draw ext topics_default e = Inr (PyList vals, e')"
proof -
  have f: "\<exists>v e'. draw ext float64_default e = Inr (v, e')" for e
    by (simp add: float64_default_def split_beta)
  have t: "\<exists>v e'. draw ext string_default e = Inr (v, e')" for e
    by (simp add: string_default_def split_beta)
  from draw_elements_total [of ext float64_default] f
  show "\<exists>vals e'. draw ext covariance_default e = Inr (PyList vals, e')"
    by (simp add: covariance_default_def split_beta draw_then_Inr)
  from draw_elements_total [of ext string_default] t
  show "\<exists>vals e'. draw ext topics_default e = Inr (PyList vals, e')"
    by (simp add: topics_default_def split_beta draw_then_Inr)
qed

lemma default_draws_return_more:
  "\<exists>vals e'. draw ext (pose_with_covariance None None) e =
      Inr (PyNamedtuple PoseWithCovariance vals, e')"
  "\<exists>vals e'. draw ext (pose_with_covariance_stamped None None) e =
      Inr (PyNamedtuple PoseWithCovarianceStamped vals, e')"
  "\<exists>vals e'. draw ext (log_message None None None None None None None None) e =
      Inr (PyNamedtuple Log vals, e')"
proof -
  show pwc: "\<exists>vals e'. draw ext (pose_with_covariance None None) e =
      Inr (PyNamedtuple PoseWithCovariance vals, e')" for e
  proof -
    from default_draws_return(5) [of ext e] obtain p e1 where "draw ext (pose None None) e = Inr (PyNamedtuple Pose p, e1)"
      by blast
    moreover from default_lists_return(1) [of ext e1] obtain xs e2 where
      "draw ext covariance_default e1 = Inr (PyList xs, e2)" by blast
    ultimately show ?thesis
      by (simp add: pose_with_covariance_def or_default_def)
  qed
  show "\<exists>vals e'. draw ext (pose_with_covariance_stamped None None) e =
      Inr (PyNamedtuple PoseWithCovarianceStamped vals, e')"
  proof -
    from default_draws_return(2) [of ext e] obtain h e1 where
      "draw ext (header None None None) e = Inr (PyNamedtuple Header h, e1)" by blast
    moreover from pwc [of e1] obtain p e2 where
      "draw ext (pose_with_covariance None None) e1 = Inr (PyNamedtuple PoseWithCovariance p, e2)"
      by blast
    ultimately show ?thesis
      by (simp add: pose_with_covariance_stamped_def or_default_def)
  qed
  show "\<exists>vals e'. draw ext (log_message None None None None None None None None) e =
      Inr (PyNamedtuple Log vals, e')"
  proof -
    from default_draws_return(2) [of ext e] obtain h e1 where
      h: "draw ext (header None None None) e = Inr (PyNamedtuple Header h, e1)" by blast
    obtain e7 where e7: "e7 = snd (draw_integer ext 0 4294967295 (snd (draw_text ext (snd (draw_text ext
        (snd (draw_text ext (snd (draw_text ext (snd (draw_integer ext 0 255 e1)))))))))))"
      by simp
    from default_lists_return(2) [of ext e7] obtain xs e8 where
      "draw ext topics_default e7 = Inr (PyList xs, e8)" by blast
    with h e7 show ?thesis
      by (simp add: log_message_def or_default_def uint8_default_def uint32_default_def
          string_default_def split_beta isinstance_def py_assert_def)
  qed
qed

section \<open>Draws through the store\<close>

lemma with_store_simps [simp]:
  "with_store m (Inl err) = Inl err"
  "with_store m (Inr (v, e)) = Inr (v, m, e)"
  by (simp_all add: with_store_def)

lemma draw_then_assoc:
  "draw_then (draw_then m f) g = draw_then m (\<lambda>v e. draw_then (f v e) g)"
  by (auto simp: draw_then_def split: sum.splits)

lemma composite_by_values:
  "composite_of f ss = Some s \<Longrightarrow>
     draw ext s e =
       draw_then (draw_fields ext ss e) (\<lambda>vals e'.
         case composite_of f (map Just vals) of None \<Rightarrow> Inl TypeError | Some s' \<Rightarrow> draw ext s' e')"
  by (cases f)
    (auto simp: composite_of_def draw_then_assoc assertion_messages py_assert_KeyError
       split: list.splits)

lemma draw_refs_sound:
  assumes ih: "\<And>c s e. c \<in> set rs \<Longrightarrow> strategy_of m c = Some s
      \<Longrightarrow> draw_ref ext c (m, e) = with_store m (draw ext s e)"
  shows "those (map (strategy_of m) rs) = Some ss
    \<Longrightarrow> draw_refs ext rs (m, e) = with_store m (draw_fields ext ss e)"
  using ih
proof (induction rs arbitrary: ss e)
  case Nil
  then show ?case by simp
next
  case (Cons r rs)
  from Cons.prems(1) obtain s ss' where
    s: "strategy_of m r = Some s" and ss': "those (map (strategy_of m) rs) = Some ss'"
    and ss: "ss = s # ss'"
    by (auto split: option.splits)
  have r: "draw_ref ext r (m, e) = with_store m (draw ext s e)" for e
    using Cons.prems(2) [of r s e] s by simp
  have rs: "draw_refs ext rs (m, e) = with_store m (draw_fields ext ss' e)" for e
    using Cons.IH [OF ss'] Cons.prems(2) by simp
  show ?case
    unfolding ss
    by (cases "draw ext s e") (auto simp: r rs with_store_def draw_then_def split: sum.splits)
qed

lemma draw_ref_times_sound:
  assumes "\<And>e. draw_ref ext r (m, e) = with_store m (draw ext s e)"
  shows "draw_ref_times ext r n (m, e) = with_store m (draw_elements ext s n e)"
proof (induction n arbitrary: e)
  case 0
  show ?case by simp
next
  case (Suc n)
  show ?case
    by (cases "draw ext s e") (auto simp: assms Suc with_store_def draw_then_def split: sum.splits)
qed

lemma those_map_Some:
  "those (map f xs) = Some ys \<Longrightarrow> length ys = length xs \<and> (\<forall>i < length xs. f (xs ! i) = Some (ys ! i))"
proof (induction xs arbitrary: ys)
  case Nil
  then show ?case by simp
next
  case (Cons x xs)
  then show ?case
    by (auto split: option.splits simp: nth_Cons split: nat.splits)
qed

lemma draw_ref_sound:
  "strategy_of m r = Some s \<Longrightarrow> draw_ref ext r (m, e) = with_store m (draw ext s e)"
proof (induction r arbitrary: s e rule: less_induct)
  case (less r)
  from less.prems have len: "r < length (objects m)"
    by (simp add: strategy_of.simps [of m r] split: if_splits)
  show ?case
  proof (cases "objects m ! r")
    case (Primitive_object p)
    with less.prems len show ?thesis
      by (simp add: strategy_of.simps [of m r] draw_ref.simps [of ext r m e] with_store_def)
  next
    case (Lists_object el lo hi)
    with less.prems len obtain t where
      el: "el < r" and t: "strategy_of m el = Some t" and s: "s = Lists t lo hi"
      by (auto simp: strategy_of.simps [of m r] split: if_splits)
    have "draw_ref ext el (m, e) = with_store m (draw ext t e)" for e
      using less.IH [OF el t] .
    from draw_ref_times_sound [of ext el m t, OF this] Lists_object len el show ?thesis
      unfolding s
      by (simp add: draw_ref.simps [of ext r m e] split_beta with_store_def draw_then_def
          split: sum.splits)
  next
    case (Composite_object f args)
    with less.prems len obtain bound ss where
      b: "bind_args (defaults m f) args = Some bound" and lt: "\<forall>c \<in> set bound. c < r"
      and ss: "those (map (strategy_of m) bound) = Some ss" and s: "composite_of f ss = Some s"
      by (auto simp: strategy_of.simps [of m r] split: if_splits option.splits)
    have "draw_ref ext c (m, e) = with_store m (draw ext t e)"
      if "c \<in> set bound" "strategy_of m c = Some t" for c t e
      using less.IH [of c t e] lt that by simp
    from draw_refs_sound [of bound m ext ss, OF this ss]
    have refs: "draw_refs ext bound (m, e) = with_store m (draw_fields ext ss e)"
      by simp
    show ?thesis
      using Composite_object len b lt
      by (simp add: draw_ref.simps [of ext r m e] refs composite_by_values [OF s] run_body_def
          with_store_def draw_then_def split: sum.splits option.splits)
  qed
qed

lemma draw_ref_keeps_store:
  "draw_ref ext r st = Inr (v, st') \<Longrightarrow> fst st' = fst st"
  "draw_refs ext rs st = Inr (vs, st') \<Longrightarrow> fst st' = fst st"
  "draw_ref_times ext r n st = Inr (vs, st') \<Longrightarrow> fst st' = fst st"
proof (induction ext r st and ext rs st and ext r n st arbitrary: v st' and vs st' and vs st'
    rule: draw_ref_draw_refs_draw_ref_times.induct)
  case (1 ext r m e)
  show ?case
  proof (cases "objects m ! r")
    case (Primitive_object p)
    with "1.prems" show ?thesis
      by (auto simp: draw_ref.simps [of ext r m e] split: if_splits sum.splits)
  next
    case (Lists_object el lo hi)
    obtain n e1 where sz: "draw_size ext lo hi e = (n, e1)"
      by (cases "draw_size ext lo hi e")
    from "1.prems" Lists_object sz have pre: "r < length (objects m)" "el < r"
      and times: "\<exists>vs. draw_ref_times ext el n (m, e1) = Inr (vs, st')"
      by (auto simp: draw_ref.simps [of ext r m e] draw_then_Inr split: if_splits)
    from "1.IH"(1) [OF pre(1) Lists_object pre(2) sz [symmetric]] times show ?thesis
      by (cases st') auto
  next
    case (Composite_object f args)
    with "1.prems" obtain bound vals st1 where
      pre: "r < length (objects m)" "bind_args (defaults m f) args = Some bound"
        "\<forall>c \<in> set bound. c < r"
      and refs: "draw_refs ext bound (m, e) = Inr (vals, st1)"
      and body: "run_body ext f vals st1 = Inr (v, st')"
      by (auto simp: draw_ref.simps [of ext r m e] draw_then_Inr
          split: if_splits option.splits)
    from "1.IH"(2) [OF pre(1) Composite_object pre(2) pre(3) refs] have "fst st1 = m"
      by simp
    with body show ?thesis
      by (auto simp: run_body_def split: option.splits sum.splits)
  qed
next
  case (2 ext st)
  then show ?case by simp
next
  case (3 ext r rs st)
  from "3.prems" obtain v1 st1 vs1 where
    a: "draw_ref ext r st = Inr (v1, st1)" and b: "draw_refs ext rs st1 = Inr (vs1, st')"
    by (auto simp: draw_then_Inr)
  from "3.IH"(1) [OF a] "3.IH"(2) [OF a b] show ?case by simp
next
  case (4 ext r st)
  then show ?case by simp
next
  case (5 ext r n st)
  from "5.prems" obtain v1 st1 vs1 where
    a: "draw_ref ext r st = Inr (v1, st1)" and b: "draw_ref_times ext r n st1 = Inr (vs1, st')"
    by (auto simp: draw_then_Inr)
  from "5.IH"(1) [OF a] "5.IH"(2) [OF a b] show ?case by simp
qed

section \<open>Runs of actions\<close>

lemma result_of_mono:
  assumes "defaults m1 = defaults m" and "objects m1 = objects m @ x"
  shows "result_of ext m1 m' a res \<Longrightarrow> result_of ext m m' a res"
proof (cases a)
  case (Construct ob)
  assume "result_of ext m1 m' a res"
  with Construct assms(2) show ?thesis
    by (auto simp: result_of_def)
next
  case (Call f args)
  assume "result_of ext m1 m' a res"
  with Call assms(2) show ?thesis
    by (auto simp: result_of_def)
next
  case (Draw r)
  assume "result_of ext m1 m' a res"
  with Draw obtain mk ek new where
    mk: "defaults mk = defaults m1" "objects mk = objects m1 @ new"
      "res = Drew (outcome (draw_ref ext r (mk, ek)))"
    by (auto simp: result_of_def)
  from mk(1,2) assms have "defaults mk = defaults m" "objects mk = objects m @ (x @ new)"
    by simp_all
  with mk(3) Draw show ?thesis
    unfolding result_of_def by auto
qed

lemma run_invariant:
  "run ext actions (m, e) = (results, m', e') \<Longrightarrow>
     defaults m' = defaults m \<and> objects m' = objects m @ objects_made actions \<and>
     list_all2 (result_of ext m m') actions results"
proof (induction actions arbitrary: m e results)
  case Nil
  then show ?case by simp
next
  case (Cons a actions)
  show ?case
  proof (cases a)
    case (Construct ob)
    obtain m1 where m1: "m1 = snd (new_object ob m)" by simp
    obtain rest where rest: "run ext actions (m1, e) = (rest, m', e')"
      and results: "results = Made (length (objects m)) # rest"
      using Cons.prems Construct m1
      by (cases "run ext actions (m1, e)") (auto simp: new_object_def)
    from Cons.IH [OF rest] m1 have
      ih: "defaults m' = defaults m" "objects m' = objects m @ ob # objects_made actions"
        "list_all2 (result_of ext m1 m') actions rest"
      by simp_all
    have "list_all2 (result_of ext m m') actions rest"
      using ih(3) result_of_mono [of m1 m "[ob]" ext m'] m1
      by (auto elim!: list_all2_mono)
    moreover have "result_of ext m m' a (Made (length (objects m)))"
      using ih(2) Construct by (simp add: result_of_def nth_append)
    ultimately show ?thesis
      using ih(1,2) Construct results by simp
  next
    case (Call f args)
    obtain m1 where m1: "m1 = snd (new_object (Composite_object f args) m)" by simp
    obtain rest where rest: "run ext actions (m1, e) = (rest, m', e')"
      and results: "results = Made (length (objects m)) # rest"
      using Cons.prems Call m1
      by (cases "run ext actions (m1, e)") (auto simp: new_object_def call_def)
    from Cons.IH [OF rest] m1 have
      ih: "defaults m' = defaults m"
        "objects m' = objects m @ Composite_object f args # objects_made actions"
        "list_all2 (result_of ext m1 m') actions rest"
      by simp_all
    have "list_all2 (result_of ext m m') actions rest"
      using ih(3) result_of_mono [of m1 m "[Composite_object f args]" ext m'] m1
      by (auto elim!: list_all2_mono)
    moreover have "result_of ext m m' a (Made (length (objects m)))"
      using ih(2) Call by (simp add: result_of_def nth_append)
    ultimately show ?thesis
      using ih(1,2) Call results by simp
  next
    case (Draw r)
    have same: "st1 = (m, snd st1)" if "draw_ref ext r (m, e) = Inr (v, st1)" for v st1
      using draw_ref_keeps_store(1) [OF that] by (cases st1) simp
    obtain e2 rest where rest: "run ext actions (m, e2) = (rest, m', e')"
      and results: "results = Drew (outcome (draw_ref ext r (m, e))) # rest"
    proof (cases "draw_ref ext r (m, e)")
      case (Inl err)
      with Cons.prems Draw that [of e] show ?thesis
        by (cases "run ext actions (m, e)") auto
    next
      case (Inr p)
      obtain v st1 where p: "p = (v, st1)" by (cases p)
      from same [of v st1] Inr p have st1: "st1 = (m, snd st1)" by simp
      with Cons.prems Draw Inr p that [of "snd st1"] show ?thesis
        by (cases "run ext actions (m, snd st1)") (auto simp: outcome_def)
    qed
    from Cons.IH [OF rest] have
      ih: "defaults m' = defaults m" "objects m' = objects m @ objects_made actions"
        "list_all2 (result_of ext m m') actions rest"
      by simp_all
    have "result_of ext m m' a (Drew (outcome (draw_ref ext r (m, e))))"
      unfolding result_of_def Draw by (auto intro: exI [of _ m] exI [of _ "[]"])
    with ih Draw results show ?thesis
      by simp
  qed
qed

lemma loaded_resolved:
  "map (strategy_of loaded)
      [0, 1, 2, 3, 4, 5, 6, 7, 8, 9, 10, 11, 12, 13, 14, 15, 16, 17, 18, 19, 20,
       21, 22, 23, 24, 25, 26, 27, 28, 29, 30, 31, 32, 33, 34, 35] =
    [Some uint32_default,
     Some uint32_default,
     Some uint32_default,
     Some (time None None),
     Some string_default,
     Some float64_default,
     Some float64_default,
     Some float64_default,
     Some float64_default,
     Some float64_default,
     Some float64_default,
     Some float64_default,
     Some (point None None None),
     Some (quaternion None None None None),
     Some (pose None None),
     Some float64_default,
     Some covariance_default,
     Some (header None None None),
     Some (pose_with_covariance None None),
     Some float64_default,
     Some float64_default,
     Some float64_default,
     Some (vector3 None None None),
     Some (quaternion None None None None),
     Some (header None None None),
     Some string_default,
     Some (transform None None),
     Some (header None None None),
     Some uint8_default,
     Some string_default,
     Some string_default,
     Some string_default,
     Some string_default,
     Some uint32_default,
     Some string_default,
     Some topics_default]"
  by (simp add: strategy_of.simps loaded_objects_list loaded_defaults bind_args_def
      composite_of_def callables default_values)

lemma loaded_resolves:
  assumes "r < length (objects loaded)"
  shows "\<exists>s. strategy_of loaded r = Some s"
proof -
  from assms have "r < 36" by (simp add: loaded_objects)
  then have r: "r \<in> set [0, 1, 2, 3, 4, 5, 6, 7, 8, 9, 10, 11, 12, 13, 14, 15, 16, 17, 18, 19, 20,
      21, 22, 23, 24, 25, 26, 27, 28, 29, 30, 31, 32, 33, 34, 35]"
    by simp presburger
  have "list_all (\<lambda>x. x \<noteq> None) (map (strategy_of loaded)
      [0, 1, 2, 3, 4, 5, 6, 7, 8, 9, 10, 11, 12, 13, 14, 15, 16, 17, 18, 19, 20,
       21, 22, 23, 24, 25, 26, 27, 28, 29, 30, 31, 32, 33, 34, 35])"
    unfolding loaded_resolved by simp
  then have "\<forall>i \<in> set [0, 1, 2, 3, 4, 5, 6, 7, 8, 9, 10, 11, 12, 13, 14, 15, 16, 17, 18, 19, 20,
      21, 22, 23, 24, 25, 26, 27, 28, 29, 30, 31, 32, 33, 34, 35]. strategy_of loaded i \<noteq> None"
    unfolding list.pred_map list_all_iff by simp
  with r show ?thesis by blast
qed

section \<open>Claims\<close>

text \<open>
  C1. For every composite message generator, a draw pulls one value from each field
  generator in the declared field order and returns a record whose fields stand in that
  order and whose arity is the declared field count. For a composite strategy \<open>s\<close> that
  assembles the record class \<open>c\<close>:
  \<^item> \<open>s\<close> has as many field generators as \<open>c\<close> declares field names, and the parameter
    names of the function are, in order, the field names the class declares (but for
    \<^verbatim>\<open>pose_with_covariance_stamped\<close>, whose parameter \<^verbatim>\<open>pose_with_covariance\<close> fills the
    field \<^verbatim>\<open>pose\<close>);
  \<^item> a draw that returns has drawn the field generators one after the other, first to
    last, each from the engine state the one before it left, and returns the record of
    class \<open>c\<close> with exactly those values in that order, so that reading the record by
    the \<open>i\<close>-th declared name gives the \<open>i\<close>-th value drawn;
  \<^item> when one of the field draws raises, the composite's draw raises the same exception;
  \<^item> when all field draws return, the composite's draw returns that record if the values
    pass the assertions of the body, and raises otherwise;
  \<^item> every draw from the default generator of each of the nine composite functions
    returns a record of its class.
\<close>

theorem composite_draws_in_field_order:
  assumes "record_class s = Some c"
  shows "length (field_strategies s) = length (field_names c) \<and>
    (c \<noteq> PoseWithCovarianceStamped \<longrightarrow> parameter_names s = field_names c) \<and>
    (c = PoseWithCovarianceStamped \<longrightarrow>
       parameter_names s = [''header'', ''pose_with_covariance''] \<and>
       field_names c = [''header'', ''pose'']) \<and>
    (\<forall>v e'. draw ext s e = Inr (v, e') \<longrightarrow>
       (\<exists>vals. draw_fields ext (field_strategies s) e = Inr (vals, e') \<and>
          v = PyNamedtuple c vals \<and> length vals = length (field_names c) \<and>
          (\<forall>i < length vals. getattr v (field_names c ! i) = Inr (vals ! i)))) \<and>
    (\<forall>err. draw_fields ext (field_strategies s) e = Inl err \<longrightarrow> draw ext s e = Inl err) \<and>
    (\<forall>vals e'. draw_fields ext (field_strategies s) e = Inr (vals, e') \<longrightarrow>
       (if well_typed s vals then draw ext s e = Inr (PyNamedtuple c vals, e')
        else \<exists>err. draw ext s e = Inl err)) \<and>
    (\<exists>vals e'. draw ext (point None None None) e = Inr (PyNamedtuple Point vals, e')) \<and>
    (\<exists>vals e'. draw ext (quaternion None None None None) e = Inr (PyNamedtuple Quaternion vals, e')) \<and>
    (\<exists>vals e'. draw ext (pose None None) e = Inr (PyNamedtuple Pose vals, e')) \<and>
    (\<exists>vals e'. draw ext (pose_with_covariance None None) e =
       Inr (PyNamedtuple PoseWithCovariance vals, e')) \<and>
    (\<exists>vals e'. draw ext (pose_with_covariance_stamped None None) e =
       Inr (PyNamedtuple PoseWithCovarianceStamped vals, e')) \<and>
    (\<exists>vals e'. draw ext (vector3 None None None) e = Inr (PyNamedtuple Vector3 vals, e')) \<and>
    (\<exists>vals e'. draw ext (transform None None) e = Inr (PyNamedtuple Transform vals, e')) \<and>
    (\<exists>vals e'. draw ext (transform_stamped None None None) e =
       Inr (PyNamedtuple TransformStamped vals, e')) \<and>
    (\<exists>vals e'. draw ext (log_message None None None None None None None None) e =
       Inr (PyNamedtuple Log vals, e'))"
proof -
  have returned: "\<exists>vals. draw_fields ext (field_strategies s) e = Inr (vals, e') \<and>
      v = PyNamedtuple c vals \<and> length vals = length (field_names c) \<and>
      (\<forall>i < length vals. getattr v (field_names c ! i) = Inr (vals ! i))"
    if "draw ext s e = Inr (v, e')" for v e'
  proof -
    from composite_draw [OF assms that] obtain vals where
      vals: "draw_fields ext (field_strategies s) e = Inr (vals, e')" "v = PyNamedtuple c vals"
        "length vals = length (field_names c)"
      by blast
    with getattr_nth [OF vals(3)] show ?thesis by blast
  qed
  have returns: "if well_typed s vals then draw ext s e = Inr (PyNamedtuple c vals, e')
      else \<exists>err. draw ext s e = Inl err"
    if fs: "draw_fields ext (field_strategies s) e = Inr (vals, e')" for vals e'
  proof (cases "well_typed s vals")
    case True
    with fs composite_draw_iff [OF assms, of ext e "PyNamedtuple c vals" e'] show ?thesis
      by auto
  next
    case False
    have "draw ext s e \<noteq> Inr r" for r
    proof
      assume "draw ext s e = Inr r"
      then have "draw ext s e = Inr (fst r, snd r)" by simp
      from composite_draw_iff [OF assms, THEN iffD1, OF this] fs False show False
        by auto
    qed
    with False show ?thesis
      by (cases "draw ext s e") auto
  qed
  from field_strategies_arity [OF assms] parameter_names_fields [OF assms] returned
    composite_draw_fails [OF assms, of ext e] returns
    default_draws_return(3,4,5,6,7,8) [of ext e] default_draws_return_more [of ext e]
  show ?thesis
    by (intro conjI allI impI) blast+
qed

text \<open>
  Witness for C1: a default \<^verbatim>\<open>transform_stamped()\<close> drawn on the list engine.
\<close>

theorem composite_draws_in_field_order_witness:
  "record_class (transform_stamped None None None) = Some TransformStamped \<and>
   length (field_strategies (transform_stamped None None None)) = 3 \<and>
   parameter_names (transform_stamped None None None) = field_names TransformStamped \<and>
   draw list_engine (transform_stamped None None None) [7, 1, 2, 3, 3, 5] =
     Inr (PyNamedtuple TransformStamped
           [PyNamedtuple Header [PyInt 7, PyTuple [PyInt 1, PyInt 2], PyStr ''aaa''],
            PyStr ''aaa'',
            PyNamedtuple Transform
              [PyNamedtuple Vector3 [PyFloat (Finite (5 / 2)), PyFloat (Finite 0), PyFloat (Finite 0)],
               PyNamedtuple Quaternion
                 [PyFloat (Finite 0), PyFloat (Finite 0), PyFloat (Finite 0), PyFloat (Finite 0)]]],
          []) \<and>
   draw_fields list_engine (field_strategies (transform_stamped None None None)) [7, 1, 2, 3, 3, 5] =
     Inr ([PyNamedtuple Header [PyInt 7, PyTuple [PyInt 1, PyInt 2], PyStr ''aaa''],
            PyStr ''aaa'',
            PyNamedtuple Transform
              [PyNamedtuple Vector3 [PyFloat (Finite (5 / 2)), PyFloat (Finite 0), PyFloat (Finite 0)],
               PyNamedtuple Quaternion
                 [PyFloat (Finite 0), PyFloat (Finite 0), PyFloat (Finite 0), PyFloat (Finite 0)]]],
          []) \<and>
   well_typed (transform_stamped None None None)
     [PyNamedtuple Header [PyInt 7, PyTuple [PyInt 1, PyInt 2], PyStr ''aaa''],
      PyStr ''aaa'',
      PyNamedtuple Transform
        [PyNamedtuple Vector3 [PyFloat (Finite (5 / 2)), PyFloat (Finite 0), PyFloat (Finite 0)],
         PyNamedtuple Quaternion
           [PyFloat (Finite 0), PyFloat (Finite 0), PyFloat (Finite 0), PyFloat (Finite 0)]]] \<and>
   getattr (PyNamedtuple TransformStamped
           [PyNamedtuple Header [PyInt 7, PyTuple [PyInt 1, PyInt 2], PyStr ''aaa''],
            PyStr ''aaa'',
            PyNamedtuple Transform
              [PyNamedtuple Vector3 [PyFloat (Finite (5 / 2)), PyFloat (Finite 0), PyFloat (Finite 0)],
               PyNamedtuple Quaternion
                 [PyFloat (Finite 0), PyFloat (Finite 0), PyFloat (Finite 0), PyFloat (Finite 0)]]])
      ''child_frame_id'' = Inr (PyStr ''aaa'')"
  using composite_draws_in_field_order
    [of "transform_stamped None None None" TransformStamped list_engine "[7, 1, 2, 3, 3, 5]"]
  by (simp add: transform_stamped_def header_def time_def transform_def vector3_def
      quaternion_def or_default_def uint32_default_def string_default_def float64_default_def
      list_engine_def next_choice_def isinstance_def py_assert_def numeral_3_eq_3
      well_typed_def getattr_def)

text \<open>
  C2. The claim: every composite generator checks the runtime type of every drawn
  field value before the record is assembled, no field being exempt. The code at three
  inputs: \<^verbatim>\<open>pose_with_covariance\<close> checks neither field (its body says
  \<^verbatim>\<open># TODO: add validation for covariance_value\<close>) and returns the record of an integer
  and a string; \<^verbatim>\<open>pose_with_covariance_stamped\<close> checks neither field; \<^verbatim>\<open>log\<close> checks
  every field but \<^verbatim>\<open>header\<close> and returns a record whose header is the integer 5, while
  \<^verbatim>\<open>transform_stamped\<close> rejects the same header value.
\<close>

theorem unchecked_fields_are_accepted:
  "draw ext (pose_with_covariance (Some (Just (PyInt 0))) (Some (Just (PyStr ''x'')))) e =
     Inr (PyNamedtuple PoseWithCovariance [PyInt 0, PyStr ''x''], e) \<and>
   draw ext (pose_with_covariance_stamped (Some (Just (PyInt 0))) (Some (Just (PyInt 1)))) e =
     Inr (PyNamedtuple PoseWithCovarianceStamped [PyInt 0, PyInt 1], e) \<and>
   draw ext (log_message (Some (Just (PyInt 5))) (Some (Just (PyInt 1)))
       (Some (Just (PyStr ''n''))) (Some (Just (PyStr ''m''))) (Some (Just (PyStr ''f'')))
       (Some (Just (PyStr ''g''))) (Some (Just (PyInt 2))) (Some (Just (PyList [])))) e =
     Inr (PyNamedtuple Log [PyInt 5, PyInt 1, PyStr ''n'', PyStr ''m'', PyStr ''f'', PyStr ''g'',
       PyInt 2, PyList []], e) \<and>
   draw ext (transform_stamped (Some (Just (PyInt 5))) (Some (Just (PyStr ''c'')))
       (Some (Just (PyNamedtuple Transform [])))) e = Inl (KeyError ''header_value'')"
  by (simp add: callables isinstance_def py_assert_def assertion_messages)

text \<open>
  C3. The claim: a drawn value that fails its type check halts the draw with a
  diagnostic that names the field, the value and the generator. The code: the draw
  halts, and what the caller receives is \<^verbatim>\<open>KeyError\<close> with the name of the first
  replacement field of the message template (\<^verbatim>\<open>'x_value'\<close>), raised by \<^verbatim>\<open>str.format\<close>
  while the message is built; no draw of any strategy ever ends in an
  \<^verbatim>\<open>AssertionError\<close>.
\<close>

theorem type_mismatch_raises_KeyError:
  "draw ext (point (Some (Just (PyInt 1))) None None) e = Inl (KeyError ''x_value'') \<and>
   draw ext (point None None (Some (Just (PyStr ''a'')))) e = Inl (KeyError ''z_value'') \<and>
   draw ext (log_message None None None None None None None (Some (Just (PyInt 3)))) e =
     Inl (KeyError ''topics_value'') \<and>
   draw ext s e \<noteq> Inl (AssertionError message)"
  by (simp add: callables default_values isinstance_def py_assert_def assertion_messages
      split_beta no_assertion_error)

text \<open>
  C4. A header generator with its sequence field fixed to 0, its stamp fixed to the
  pair (1, 2) and its frame id fixed to \<^verbatim>\<open>"some_tf_frame_name"\<close> yields the record
  \<^verbatim>\<open>(0, (1, 2), "some_tf_frame_name")\<close> on every draw: with the bounded generators of the
  test (\<^verbatim>\<open>uint32(min_value=0, max_value=0)\<close>, \<^verbatim>\<open>time\<close> over \<^verbatim>\<open>uint32\<close> fixed to 1 and 2,
  \<^verbatim>\<open>just\<close> of the string) and with \<^verbatim>\<open>just\<close> of each constant, whatever the engine's
  state, the draw returns the \<^verbatim>\<open>_Header\<close> record of these three values, which Python's
  \<^verbatim>\<open>==\<close> equates with the plain tuple.
\<close>

theorem header_scenario:
  assumes "engine_ok ext"
  shows "uint32 (Some 0) (Some 0) = Inr (Integers 0 0) \<and>
    uint32 (Some 1) (Some 1) = Inr (Integers 1 1) \<and>
    uint32 (Some 2) (Some 2) = Inr (Integers 2 2) \<and>
    outcome (draw ext (header (Some (Integers 0 0))
        (Some (time (Some (Integers 1 1)) (Some (Integers 2 2))))
        (Some (Just (PyStr ''some_tf_frame_name'')))) e) =
      Inr (PyNamedtuple Header [PyInt 0, PyTuple [PyInt 1, PyInt 2], PyStr ''some_tf_frame_name'']) \<and>
    outcome (draw ext (header (Some (Just (PyInt 0))) (Some (Just (PyTuple [PyInt 1, PyInt 2])))
        (Some (Just (PyStr ''some_tf_frame_name'')))) e) =
      Inr (PyNamedtuple Header [PyInt 0, PyTuple [PyInt 1, PyInt 2], PyStr ''some_tf_frame_name'']) \<and>
    py_eq (PyNamedtuple Header [PyInt 0, PyTuple [PyInt 1, PyInt 2], PyStr ''some_tf_frame_name''])
      (PyTuple [PyInt 0, PyTuple [PyInt 1, PyInt 2], PyStr ''some_tf_frame_name''])"
  using assms
  by (simp add: uint32_def bounded_integer_def callables split_beta fixed_integer)

text \<open>
  Witness for C4: the list engine keeps the engine's promises; the header of the test
  drawn on it.
\<close>

theorem header_scenario_witness:
  "engine_ok list_engine \<and>
   draw list_engine (header (Some (Integers 0 0))
        (Some (time (Some (Integers 1 1)) (Some (Integers 2 2))))
        (Some (Just (PyStr ''some_tf_frame_name'')))) [5, 6, 7, 8] =
     Inr (PyNamedtuple Header [PyInt 0, PyTuple [PyInt 1, PyInt 2], PyStr ''some_tf_frame_name''], [8])"
  using header_scenario [OF list_engine_ok, of "[5, 6, 7, 8]"] list_engine_ok
  by (simp add: callables list_engine_def next_choice_def)

text \<open>
  C5. An array generator built with \<^verbatim>\<open>min_size == max_size == n\<close> yields a sequence of
  exactly \<^verbatim>\<open>n\<close> elements on every draw that returns, and every draw returns when the
  draws of the element generator do; with size 4 and the element generator fixed to the
  constant 0 every draw yields \<^verbatim>\<open>[0, 0, 0, 0]\<close>.
\<close>

theorem fixed_size_array_length:
  assumes "engine_ok ext" and "0 \<le> n"
  shows "array elements (Some n) (Some n) = Inr (Lists elements (Some (nat n)) (Some (nat n))) \<and>
    (\<forall>v e'. draw ext (Lists elements (Some (nat n)) (Some (nat n))) e = Inr (v, e') \<longrightarrow>
       (\<exists>xs. v = PyList xs \<and> int (length xs) = n)) \<and>
    ((\<forall>e. \<exists>v e'. draw ext elements e = Inr (v, e')) \<longrightarrow>
       (\<exists>xs e'. draw ext (Lists elements (Some (nat n)) (Some (nat n))) e = Inr (PyList xs, e') \<and>
          int (length xs) = n)) \<and>
    array (Just (PyInt 0)) (Some 4) (Some 4) = Inr (Lists (Just (PyInt 0)) (Some 4) (Some 4)) \<and>
    outcome (draw ext (Lists (Just (PyInt 0)) (Some 4) (Some 4)) e) =
      Inr (PyList [PyInt 0, PyInt 0, PyInt 0, PyInt 0]) \<and>
    outcome (draw ext (Lists (Integers 0 0) (Some 4) (Some 4)) e) =
      Inr (PyList [PyInt 0, PyInt 0, PyInt 0, PyInt 0])"
proof -
  let ?s = "Lists elements (Some (nat n)) (Some (nat n))"
  obtain e1 where size: "draw_size ext (Some (nat n)) (Some (nat n)) e = (nat n, e1)"
    using fixed_size [OF assms(1), of "nat n" e]
    by (cases "draw_size ext (Some (nat n)) (Some (nat n)) e") simp
  have construct: "array elements (Some n) (Some n) = Inr ?s"
    using assms(2) by (simp add: array_def)
  have len: "\<exists>xs. v = PyList xs \<and> int (length xs) = n" if "draw ext ?s e = Inr (v, e')" for v e'
    using that size assms(2) by (auto simp: draw_then_Inr dest: draw_elements_length)
  have total: "\<exists>xs e'. draw ext ?s e = Inr (PyList xs, e') \<and> int (length xs) = n"
    if el: "\<forall>e. \<exists>v e'. draw ext elements e = Inr (v, e')"
  proof -
    from el have "\<exists>vs e'. draw_elements ext elements (nat n) e1 = Inr (vs, e')"
      by (intro draw_elements_total) blast
    then obtain vs e' where vs: "draw_elements ext elements (nat n) e1 = Inr (vs, e')"
      by blast
    with size assms(2) draw_elements_length [OF vs] show ?thesis by simp
  qed
  obtain e4 where size4: "draw_size ext (Some 4) (Some 4) e = (4, e4)"
    using fixed_size [OF assms(1), of 4 e]
    by (cases "draw_size ext (Some 4) (Some 4) e") simp
  have four: "outcome (draw ext (Lists el (Some 4) (Some 4)) e) =
      Inr (PyList [PyInt 0, PyInt 0, PyInt 0, PyInt 0])"
    if "\<And>e. outcome (draw ext el e) = Inr (PyInt 0)" for el
  proof -
    from draw_elements_constant [of ext el "PyInt 0" 4 e4, OF that]
    obtain e5 where "draw_elements ext el 4 e4 = Inr (replicate 4 (PyInt 0), e5)"
      by (cases "draw_elements ext el 4 e4") (auto simp: outcome_def)
    with size4 show ?thesis by (simp add: numeral_Bit0 [of "Num.Bit0 Num.One", where 'a = nat] eval_nat_numeral)
  qed
  have j: "outcome (draw ext (Just (PyInt 0)) e) = Inr (PyInt 0)" for e
    by simp
  have i: "outcome (draw ext (Integers 0 0) e) = Inr (PyInt 0)" for e
    using assms(1) by (simp add: split_beta fixed_integer)
  have c4: "array (Just (PyInt 0)) (Some 4) (Some 4) = Inr (Lists (Just (PyInt 0)) (Some 4) (Some 4))"
    by (simp add: array_def)
  from construct len total c4 four [OF j] four [OF i] show ?thesis
    by blast
qed

text \<open>
  Witness for C5: arrays of two floats and of four zeros drawn on the list engine.
\<close>

theorem fixed_size_array_length_witness:
  "engine_ok list_engine \<and> (0::int) \<le> 2 \<and>
   array float64_default (Some 2) (Some 2) = Inr (Lists float64_default (Some 2) (Some 2)) \<and>
   draw list_engine (Lists float64_default (Some 2) (Some 2)) [9, 3, 5, 1] =
     Inr (PyList [PyFloat (Finite (3 / 2)), PyFloat (Finite (5 / 2))], [1]) \<and>
   draw list_engine (Lists (Just (PyInt 0)) (Some 4) (Some 4)) [9, 3, 5, 1] =
     Inr (PyList [PyInt 0, PyInt 0, PyInt 0, PyInt 0], [3, 5, 1])"
  using fixed_size_array_length [OF list_engine_ok, of 2 float64_default "[9, 3, 5, 1]"]
    list_engine_ok
  by (simp add: list_engine_def next_choice_def float64_default_def or_default_def
      numeral_2_eq_2 numeral_Bit0 [of "Num.Bit0 Num.One", where 'a = nat])

text \<open>
  C6. A bounded integer generator (\<^verbatim>\<open>uint8\<close>, \<^verbatim>\<open>uint32\<close>) or bounded float generator
  (\<^verbatim>\<open>float64\<close>) built with \<^verbatim>\<open>min_value == max_value == k\<close> yields exactly \<^verbatim>\<open>k\<close> on every
  draw. For a float, \<^verbatim>\<open>k\<close> is a number or an infinity: NaN is no bound.
\<close>

theorem equal_bounds_yield_the_bound:
  assumes "engine_ok ext"
  shows "uint8 (Some k) (Some k) = Inr (Integers k k) \<and>
    uint32 (Some k) (Some k) = Inr (Integers k k) \<and>
    outcome (draw ext (Integers k k) e) = Inr (PyInt k) \<and>
    (f \<noteq> NaN \<longrightarrow> float64 (Some f) (Some f) = Inr (Floats (Some f) (Some f)) \<and>
       outcome (draw ext (Floats (Some f) (Some f)) e) = Inr (PyFloat f))"
  using assms
  by (simp add: uint8_def uint32_def bounded_integer_def or_default_def float64_def
      float_le_refl split_beta fixed_integer fixed_float)

text \<open>
  Witness for C6: \<^verbatim>\<open>uint32(min_value=0, max_value=0)\<close> and
  \<^verbatim>\<open>float64(min_value=0.0, max_value=0.0)\<close> drawn on the list engine.
\<close>

theorem equal_bounds_yield_the_bound_witness:
  "engine_ok list_engine \<and>
   uint32 (Some 0) (Some 0) = Inr (Integers 0 0) \<and>
   draw list_engine (Integers 0 0) [9, 4] = Inr (PyInt 0, [4]) \<and>
   Finite 0 \<noteq> NaN \<and>
   float64 (Some (Finite 0)) (Some (Finite 0)) = Inr (Floats (Some (Finite 0)) (Some (Finite 0))) \<and>
   draw list_engine (Floats (Some (Finite 0)) (Some (Finite 0))) [9, 4] = Inr (PyFloat (Finite 0), [4])"
  using equal_bounds_yield_the_bound [OF list_engine_ok, of 0 "[9, 4]" "Finite 0"] list_engine_ok
  by (simp add: list_engine_def next_choice_def)

text \<open>
  C7. In a composite generator, a field whose generator has all its leaf generators
  fixed to constants (for instance a nested record overridden with such a generator) has
  the same value in every record the composite draws: whatever the two engine states,
  two draws that return give records that agree on that field, and the value there is
  the one every draw of the field generator alone yields.
\<close>

theorem fixed_subtree_is_deterministic:
  assumes "engine_ok ext"
    and "record_class s = Some c"
    and "i < length (field_strategies s)"
    and "fixed (field_strategies s ! i)"
    and "draw ext s e1 = Inr (v1, e1')"
    and "draw ext s e2 = Inr (v2, e2')"
  shows "\<exists>vals1 vals2. v1 = PyNamedtuple c vals1 \<and> v2 = PyNamedtuple c vals2 \<and>
    i < length vals1 \<and> i < length vals2 \<and> vals1 ! i = vals2 ! i \<and>
    (\<forall>e. outcome (draw ext (field_strategies s ! i) e) = Inr (vals1 ! i))"
proof -
  let ?g = "field_strategies s ! i"
  from composite_draw [OF assms(2) assms(5)] obtain vals1 where
    1: "draw_fields ext (field_strategies s) e1 = Inr (vals1, e1')" "v1 = PyNamedtuple c vals1"
    by blast
  from composite_draw [OF assms(2) assms(6)] obtain vals2 where
    2: "draw_fields ext (field_strategies s) e2 = Inr (vals2, e2')" "v2 = PyNamedtuple c vals2"
    by blast
  from draw_fields_nth [OF 1(1) assms(3)] obtain a a' where
    a: "length vals1 = length (field_strategies s)" "draw ext ?g a = Inr (vals1 ! i, a')"
    by blast
  from draw_fields_nth [OF 2(1) assms(3)] obtain b b' where
    b: "length vals2 = length (field_strategies s)" "draw ext ?g b = Inr (vals2 ! i, b')"
    by blast
  have same: "outcome (draw ext ?g e) = Inr (vals1 ! i)" for e
    using fixed_outcome [OF assms(1) assms(4), of e a] a(2) by simp
  from same [of b] b(2) have "vals1 ! i = vals2 ! i"
    by simp
  with 1(2) 2(2) a(1) b(1) assms(3) same show ?thesis
    by auto
qed

text \<open>
  Witness for C7: \<^verbatim>\<open>pose\<close> with its position overridden by a \<^verbatim>\<open>point\<close> of three floats
  fixed to 0.0, drawn twice on the list engine: the positions agree, the orientations
  do not.
\<close>

theorem fixed_subtree_is_deterministic_witness:
  "engine_ok list_engine \<and>
   record_class (pose (Some (point (Some (Floats (Some (Finite 0)) (Some (Finite 0))))
        (Some (Floats (Some (Finite 0)) (Some (Finite 0))))
        (Some (Floats (Some (Finite 0)) (Some (Finite 0)))))) None) = Some Pose \<and>
   fixed (field_strategies (pose (Some (point (Some (Floats (Some (Finite 0)) (Some (Finite 0))))
        (Some (Floats (Some (Finite 0)) (Some (Finite 0))))
        (Some (Floats (Some (Finite 0)) (Some (Finite 0)))))) None) ! 0) \<and>
   draw list_engine (pose (Some (point (Some (Floats (Some (Finite 0)) (Some (Finite 0))))
        (Some (Floats (Some (Finite 0)) (Some (Finite 0))))
        (Some (Floats (Some (Finite 0)) (Some (Finite 0)))))) None) [1, 2, 3, 4, 5, 6, 7, 8] =
     Inr (PyNamedtuple Pose
       [PyNamedtuple Point [PyFloat (Finite 0), PyFloat (Finite 0), PyFloat (Finite 0)],
        PyNamedtuple Quaternion [PyFloat (Finite 2), PyFloat (Finite (5 / 2)), PyFloat (Finite 3),
          PyFloat (Finite (7 / 2))]], [8]) \<and>
   draw list_engine (pose (Some (point (Some (Floats (Some (Finite 0)) (Some (Finite 0))))
        (Some (Floats (Some (Finite 0)) (Some (Finite 0))))
        (Some (Floats (Some (Finite 0)) (Some (Finite 0)))))) None) [] =
     Inr (PyNamedtuple Pose
       [PyNamedtuple Point [PyFloat (Finite 0), PyFloat (Finite 0), PyFloat (Finite 0)],
        PyNamedtuple Quaternion [PyFloat (Finite 0), PyFloat (Finite 0), PyFloat (Finite 0),
          PyFloat (Finite 0)]], [])"
  using fixed_subtree_is_deterministic [OF list_engine_ok,
      of "pose (Some (point (Some (Floats (Some (Finite 0)) (Some (Finite 0))))
        (Some (Floats (Some (Finite 0)) (Some (Finite 0))))
        (Some (Floats (Some (Finite 0)) (Some (Finite 0)))))) None" Pose 0
      "[1, 2, 3, 4, 5, 6, 7, 8]" _ _ "[]"]
    list_engine_ok
  by (simp add: callables default_values list_engine_def next_choice_def isinstance_def
      py_assert_def)

text \<open>
  C8. Overriding a field of a composite generator leaves the generators and the
  constraints of its other fields as they are. For each of the nine composite functions
  and any arguments: the field generators of the call are, position by position, the
  override where one is passed and otherwise the generator at that position in the call
  without arguments; the types asserted of the fields are those of the call without
  arguments; a draw returns exactly when drawing, in order, from these generators (the
  override or else the default of the argument-free call) returns values that pass those
  assertions, and then returns the record of these values; and when one of these draws
  raises, the composite's draw raises the same exception.
\<close>

theorem override_leaves_other_fields:
  "(field_strategies (point x y z) = map2 or_default [x, y, z] (field_strategies (point None None None)) \<and>
    checked_types (point x y z) = checked_types (point None None None) \<and>
    (\<forall>v e'. draw ext (point x y z) e = Inr (v, e') \<longleftrightarrow>
       (\<exists>vals. draw_fields ext (map2 or_default [x, y, z] (field_strategies (point None None None))) e = Inr (vals, e') \<and>
          well_typed (point None None None) vals \<and> v = PyNamedtuple Point vals)) \<and>
    (\<forall>err. draw_fields ext (map2 or_default [x, y, z] (field_strategies (point None None None))) e = Inl err \<longrightarrow>
       draw ext (point x y z) e = Inl err)) \<and>
   (field_strategies (quaternion x y z w) = map2 or_default [x, y, z, w] (field_strategies (quaternion None None None None)) \<and>
    checked_types (quaternion x y z w) = checked_types (quaternion None None None None) \<and>
    (\<forall>v e'. draw ext (quaternion x y z w) e = Inr (v, e') \<longleftrightarrow>
       (\<exists>vals. draw_fields ext (map2 or_default [x, y, z, w] (field_strategies (quaternion None None None None))) e = Inr (vals, e') \<and>
          well_typed (quaternion None None None None) vals \<and> v = PyNamedtuple Quaternion vals)) \<and>
    (\<forall>err. draw_fields ext (map2 or_default [x, y, z, w] (field_strategies (quaternion None None None None))) e = Inl err \<longrightarrow>
       draw ext (quaternion x y z w) e = Inl err)) \<and>
   (field_strategies (pose position orientation) = map2 or_default [position, orientation] (field_strategies (pose None None)) \<and>
    checked_types (pose position orientation) = checked_types (pose None None) \<and>
    (\<forall>v e'. draw ext (pose position orientation) e = Inr (v, e') \<longleftrightarrow>
       (\<exists>vals. draw_fields ext (map2 or_default [position, orientation] (field_strategies (pose None None))) e = Inr (vals, e') \<and>
          well_typed (pose None None) vals \<and> v = PyNamedtuple Pose vals)) \<and>
    (\<forall>err. draw_fields ext (map2 or_default [position, orientation] (field_strategies (pose None None))) e = Inl err \<longrightarrow>
       draw ext (pose position orientation) e = Inl err)) \<and>
   (field_strategies (pose_with_covariance pose_arg covariance) = map2 or_default [pose_arg, covariance] (field_strategies (pose_with_covariance None None)) \<and>
    checked_types (pose_with_covariance pose_arg covariance) = checked_types (pose_with_covariance None None) \<and>
    (\<forall>v e'. draw ext (pose_with_covariance pose_arg covariance) e = Inr (v, e') \<longleftrightarrow>
       (\<exists>vals. draw_fields ext (map2 or_default [pose_arg, covariance] (field_strategies (pose_with_covariance None None))) e = Inr (vals, e') \<and>
          well_typed (pose_with_covariance None None) vals \<and> v = PyNamedtuple PoseWithCovariance vals)) \<and>
    (\<forall>err. draw_fields ext (map2 or_default [pose_arg, covariance] (field_strategies (pose_with_covariance None None))) e = Inl err \<longrightarrow>
       draw ext (pose_with_covariance pose_arg covariance) e = Inl err)) \<and>
   (field_strategies (pose_with_covariance_stamped header_arg pose_with_covariance_arg) = map2 or_default [header_arg, pose_with_covariance_arg] (field_strategies (pose_with_covariance_stamped None None)) \<and>
    checked_types (pose_with_covariance_stamped header_arg pose_with_covariance_arg) = checked_types (pose_with_covariance_stamped None None) \<and>
    (\<forall>v e'. draw ext (pose_with_covariance_stamped header_arg pose_with_covariance_arg) e = Inr (v, e') \<longleftrightarrow>
       (\<exists>vals. draw_fields ext (map2 or_default [header_arg, pose_with_covariance_arg] (field_strategies (pose_with_covariance_stamped None None))) e = Inr (vals, e') \<and>
          well_typed (pose_with_covariance_stamped None None) vals \<and> v = PyNamedtuple PoseWithCovarianceStamped vals)) \<and>
    (\<forall>err. draw_fields ext (map2 or_default [header_arg, pose_with_covariance_arg] (field_strategies (pose_with_covariance_stamped None None))) e = Inl err \<longrightarrow>
       draw ext (pose_with_covariance_stamped header_arg pose_with_covariance_arg) e = Inl err)) \<and>
   (field_strategies (vector3 x y z) = map2 or_default [x, y, z] (field_strategies (vector3 None None None)) \<and>
    checked_types (vector3 x y z) = checked_types (vector3 None None None) \<and>
    (\<forall>v e'. draw ext (vector3 x y z) e = Inr (v, e') \<longleftrightarrow>
       (\<exists>vals. draw_fields ext (map2 or_default [x, y, z] (field_strategies (vector3 None None None))) e = Inr (vals, e') \<and>
          well_typed (vector3 None None None) vals \<and> v = PyNamedtuple Vector3 vals)) \<and>
    (\<forall>err. draw_fields ext (map2 or_default [x, y, z] (field_strategies (vector3 None None None))) e = Inl err \<longrightarrow>
       draw ext (vector3 x y z) e = Inl err)) \<and>
   (field_strategies (transform translation rotation) = map2 or_default [translation, rotation] (field_strategies (transform None None)) \<and>
    checked_types (transform translation rotation) = checked_types (transform None None) \<and>
    (\<forall>v e'. draw ext (transform translation rotation) e = Inr (v, e') \<longleftrightarrow>
       (\<exists>vals. draw_fields ext (map2 or_default [translation, rotation] (field_strategies (transform None None))) e = Inr (vals, e') \<and>
          well_typed (transform None None) vals \<and> v = PyNamedtuple Transform vals)) \<and>
    (\<forall>err. draw_fields ext (map2 or_default [translation, rotation] (field_strategies (transform None None))) e = Inl err \<longrightarrow>
       draw ext (transform translation rotation) e = Inl err)) \<and>
   (field_strategies (transform_stamped header_arg child_frame_id transform_arg) = map2 or_default [header_arg, child_frame_id, transform_arg] (field_strategies (transform_stamped None None None)) \<and>
    checked_types (transform_stamped header_arg child_frame_id transform_arg) = checked_types (transform_stamped None None None) \<and>
    (\<forall>v e'. draw ext (transform_stamped header_arg child_frame_id transform_arg) e = Inr (v, e') \<longleftrightarrow>
       (\<exists>vals. draw_fields ext (map2 or_default [header_arg, child_frame_id, transform_arg] (field_strategies (transform_stamped None None None))) e = Inr (vals, e') \<and>
          well_typed (transform_stamped None None None) vals \<and> v = PyNamedtuple TransformStamped vals)) \<and>
    (\<forall>err. draw_fields ext (map2 or_default [header_arg, child_frame_id, transform_arg] (field_strategies (transform_stamped None None None))) e = Inl err \<longrightarrow>
       draw ext (transform_stamped header_arg child_frame_id transform_arg) e = Inl err)) \<and>
   (field_strategies (log_message header_arg level name msg file function line topics) = map2 or_default [header_arg, level, name, msg, file, function, line, topics] (field_strategies (log_message None None None None None None None None)) \<and>
    checked_types (log_message header_arg level name msg file function line topics) = checked_types (log_message None None None None None None None None) \<and>
    (\<forall>v e'. draw ext (log_message header_arg level name msg file function line topics) e = Inr (v, e') \<longleftrightarrow>
       (\<exists>vals. draw_fields ext (map2 or_default [header_arg, level, name, msg, file, function, line, topics] (field_strategies (log_message None None None None None None None None))) e = Inr (vals, e') \<and>
          well_typed (log_message None None None None None None None None) vals \<and> v = PyNamedtuple Log vals)) \<and>
    (\<forall>err. draw_fields ext (map2 or_default [header_arg, level, name, msg, file, function, line, topics] (field_strategies (log_message None None None None None None None None))) e = Inl err \<longrightarrow>
       draw ext (log_message header_arg level name msg file function line topics) e = Inl err))"
proof -
  have shape: "field_strategies s = fs \<Longrightarrow> checked_types s = ts \<Longrightarrow> record_class s = Some c \<Longrightarrow>
      field_strategies s = fs \<and> checked_types s = ts \<and>
      (\<forall>v e'. draw ext s e = Inr (v, e') \<longleftrightarrow>
         (\<exists>vals. draw_fields ext fs e = Inr (vals, e') \<and>
            list_all2 (\<lambda>v t. case t of None \<Rightarrow> True | Some T \<Rightarrow> isinstance v T) vals ts \<and>
            v = PyNamedtuple c vals)) \<and>
      (\<forall>err. draw_fields ext fs e = Inl err \<longrightarrow> draw ext s e = Inl err)" for s fs ts c
    using composite_draw_iff [of s c ext e] composite_draw_fails [of s c ext e]
    by (auto simp: well_typed_def)
  have c_point: "field_strategies (point x y z) = map2 or_default [x, y, z] (field_strategies (point None None None)) \<and>
    checked_types (point x y z) = checked_types (point None None None) \<and>
    (\<forall>v e'. draw ext (point x y z) e = Inr (v, e') \<longleftrightarrow>
       (\<exists>vals. draw_fields ext (map2 or_default [x, y, z] (field_strategies (point None None None))) e = Inr (vals, e') \<and>
          well_typed (point None None None) vals \<and> v = PyNamedtuple Point vals)) \<and>
    (\<forall>err. draw_fields ext (map2 or_default [x, y, z] (field_strategies (point None None None))) e = Inl err \<longrightarrow>
       draw ext (point x y z) e = Inl err)"
    unfolding well_typed_def
    by (rule shape) (simp_all add: point_def or_default_def)
  have c_quaternion: "field_strategies (quaternion x y z w) = map2 or_default [x, y, z, w] (field_strategies (quaternion None None None None)) \<and>
    checked_types (quaternion x y z w) = checked_types (quaternion None None None None) \<and>
    (\<forall>v e'. draw ext (quaternion x y z w) e = Inr (v, e') \<longleftrightarrow>
       (\<exists>vals. draw_fields ext (map2 or_default [x, y, z, w] (field_strategies (quaternion None None None None))) e = Inr (vals, e') \<and>
          well_typed (quaternion None None None None) vals \<and> v = PyNamedtuple Quaternion vals)) \<and>
    (\<forall>err. draw_fields ext (map2 or_default [x, y, z, w] (field_strategies (quaternion None None None None))) e = Inl err \<longrightarrow>
       draw ext (quaternion x y z w) e = Inl err)"
    unfolding well_typed_def
    by (rule shape) (simp_all add: quaternion_def or_default_def)
  have c_pose: "field_strategies (pose position orientation) = map2 or_default [position, orientation] (field_strategies (pose None None)) \<and>
    checked_types (pose position orientation) = checked_types (pose None None) \<and>
    (\<forall>v e'. draw ext (pose position orientation) e = Inr (v, e') \<longleftrightarrow>
       (\<exists>vals. draw_fields ext (map2 or_default [position, orientation] (field_strategies (pose None None))) e = Inr (vals, e') \<and>
          well_typed (pose None None) vals \<and> v = PyNamedtuple Pose vals)) \<and>
    (\<forall>err. draw_fields ext (map2 or_default [position, orientation] (field_strategies (pose None None))) e = Inl err \<longrightarrow>
       draw ext (pose position orientation) e = Inl err)"
    unfolding well_typed_def
    by (rule shape) (simp_all add: pose_def or_default_def)
  have c_pose_with_covariance: "field_strategies (pose_with_covariance pose_arg covariance) = map2 or_default [pose_arg, covariance] (field_strategies (pose_with_covariance None None)) \<and>
    checked_types (pose_with_covariance pose_arg covariance) = checked_types (pose_with_covariance None None) \<and>
    (\<forall>v e'. draw ext (pose_with_covariance pose_arg covariance) e = Inr (v, e') \<longleftrightarrow>
       (\<exists>vals. draw_fields ext (map2 or_default [pose_arg, covariance] (field_strategies (pose_with_covariance None None))) e = Inr (vals, e') \<and>
          well_typed (pose_with_covariance None None) vals \<and> v = PyNamedtuple PoseWithCovariance vals)) \<and>
    (\<forall>err. draw_fields ext (map2 or_default [pose_arg, covariance] (field_strategies (pose_with_covariance None None))) e = Inl err \<longrightarrow>
       draw ext (pose_with_covariance pose_arg covariance) e = Inl err)"
    unfolding well_typed_def
    by (rule shape) (simp_all add: pose_with_covariance_def or_default_def)
  have c_pose_with_covariance_stamped: "field_strategies (pose_with_covariance_stamped header_arg pose_with_covariance_arg) = map2 or_default [header_arg, pose_with_covariance_arg] (field_strategies (pose_with_covariance_stamped None None)) \<and>
    checked_types (pose_with_covariance_stamped header_arg pose_with_covariance_arg) = checked_types (pose_with_covariance_stamped None None) \<and>
    (\<forall>v e'. draw ext (pose_with_covariance_stamped header_arg pose_with_covariance_arg) e = Inr (v, e') \<longleftrightarrow>
       (\<exists>vals. draw_fields ext (map2 or_default [header_arg, pose_with_covariance_arg] (field_strategies (pose_with_covariance_stamped None None))) e = Inr (vals, e') \<and>
          well_typed (pose_with_covariance_stamped None None) vals \<and> v = PyNamedtuple PoseWithCovarianceStamped vals)) \<and>
    (\<forall>err. draw_fields ext (map2 or_default [header_arg, pose_with_covariance_arg] (field_strategies (pose_with_covariance_stamped None None))) e = Inl err \<longrightarrow>
       draw ext (pose_with_covariance_stamped header_arg pose_with_covariance_arg) e = Inl err)"
    unfolding well_typed_def
    by (rule shape) (simp_all add: pose_with_covariance_stamped_def or_default_def)
  have c_vector3: "field_strategies (vector3 x y z) = map2 or_default [x, y, z] (field_strategies (vector3 None None None)) \<and>
    checked_types (vector3 x y z) = checked_types (vector3 None None None) \<and>
    (\<forall>v e'. draw ext (vector3 x y z) e = Inr (v, e') \<longleftrightarrow>
       (\<exists>vals. draw_fields ext (map2 or_default [x, y, z] (field_strategies (vector3 None None None))) e = Inr (vals, e') \<and>
          well_typed (vector3 None None None) vals \<and> v = PyNamedtuple Vector3 vals)) \<and>
    (\<forall>err. draw_fields ext (map2 or_default [x, y, z] (field_strategies (vector3 None None None))) e = Inl err \<longrightarrow>
       draw ext (vector3 x y z) e = Inl err)"
    unfolding well_typed_def
    by (rule shape) (simp_all add: vector3_def or_default_def)
  have c_transform: "field_strategies (transform translation rotation) = map2 or_default [translation, rotation] (field_strategies (transform None None)) \<and>
    checked_types (transform translation rotation) = checked_types (transform None None) \<and>
    (\<forall>v e'. draw ext (transform translation rotation) e = Inr (v, e') \<longleftrightarrow>
       (\<exists>vals. draw_fields ext (map2 or_default [translation, rotation] (field_strategies (transform None None))) e = Inr (vals, e') \<and>
          well_typed (transform None None) vals \<and> v = PyNamedtuple Transform vals)) \<and>
    (\<forall>err. draw_fields ext (map2 or_default [translation, rotation] (field_strategies (transform None None))) e = Inl err \<longrightarrow>
       draw ext (transform translation rotation) e = Inl err)"
    unfolding well_typed_def
    by (rule shape) (simp_all add: transform_def or_default_def)
  have c_transform_stamped: "field_strategies (transform_stamped header_arg child_frame_id transform_arg) = map2 or_default [header_arg, child_frame_id, transform_arg] (field_strategies (transform_stamped None None None)) \<and>
    checked_types (transform_stamped header_arg child_frame_id transform_arg) = checked_types (transform_stamped None None None) \<and>
    (\<forall>v e'. draw ext (transform_stamped header_arg child_frame_id transform_arg) e = Inr (v, e') \<longleftrightarrow>
       (\<exists>vals. draw_fields ext (map2 or_default [header_arg, child_frame_id, transform_arg] (field_strategies (transform_stamped None None None))) e = Inr (vals, e') \<and>
          well_typed (transform_stamped None None None) vals \<and> v = PyNamedtuple TransformStamped vals)) \<and>
    (\<forall>err. draw_fields ext (map2 or_default [header_arg, child_frame_id, transform_arg] (field_strategies (transform_stamped None None None))) e = Inl err \<longrightarrow>
       draw ext (transform_stamped header_arg child_frame_id transform_arg) e = Inl err)"
    unfolding well_typed_def
    by (rule shape) (simp_all add: transform_stamped_def or_default_def)
  have c_log_message: "field_strategies (log_message header_arg level name msg file function line topics) = map2 or_default [header_arg, level, name, msg, file, function, line, topics] (field_strategies (log_message None None None None None None None None)) \<and>
    checked_types (log_message header_arg level name msg file function line topics) = checked_types (log_message None None None None None None None None) \<and>
    (\<forall>v e'. draw ext (log_message header_arg level name msg file function line topics) e = Inr (v, e') \<longleftrightarrow>
       (\<exists>vals. draw_fields ext (map2 or_default [header_arg, level, name, msg, file, function, line, topics] (field_strategies (log_message None None None None None None None None))) e = Inr (vals, e') \<and>
          well_typed (log_message None None None None None None None None) vals \<and> v = PyNamedtuple Log vals)) \<and>
    (\<forall>err. draw_fields ext (map2 or_default [header_arg, level, name, msg, file, function, line, topics] (field_strategies (log_message None None None None None None None None))) e = Inl err \<longrightarrow>
       draw ext (log_message header_arg level name msg file function line topics) e = Inl err)"
    unfolding well_typed_def
    by (rule shape) (simp_all add: log_message_def or_default_def)
  show ?thesis
    by (rule conjI [OF c_point], rule conjI [OF c_quaternion], rule conjI [OF c_pose], rule conjI [OF c_pose_with_covariance], rule conjI [OF c_pose_with_covariance_stamped], rule conjI [OF c_vector3], rule conjI [OF c_transform], rule conjI [OF c_transform_stamped], rule c_log_message)
qed

text \<open>
  Witness for C8: \<^verbatim>\<open>point(x=just(1.0))\<close> keeps the default generators of \<^verbatim>\<open>y\<close> and \<^verbatim>\<open>z\<close>,
  and its draw on the list engine takes \<^verbatim>\<open>y\<close> and \<^verbatim>\<open>z\<close> from them.
\<close>

theorem override_leaves_other_fields_witness:
  "field_strategies (point (Some (Just (PyFloat (Finite 1)))) None None) =
     [Just (PyFloat (Finite 1)), float64_default, float64_default] \<and>
   field_strategies (point None None None) = [float64_default, float64_default, float64_default] \<and>
   draw list_engine (point (Some (Just (PyFloat (Finite 1)))) None None) [3, 4] =
     Inr (PyNamedtuple Point [PyFloat (Finite 1), PyFloat (Finite (3 / 2)), PyFloat (Finite 2)], []) \<and>
   draw_fields list_engine [float64_default, float64_default] [3, 4] =
     Inr ([PyFloat (Finite (3 / 2)), PyFloat (Finite 2)], [])"
  using override_leaves_other_fields
    [of "Some (Just (PyFloat (Finite 1)))" None None list_engine "[3, 4]"]
  by (simp add: point_def or_default_def float64_default_def list_engine_def next_choice_def
      isinstance_def py_assert_def)

text \<open>
  C9. The default covariance generator of \<^verbatim>\<open>pose_with_covariance\<close> is the array of
  exactly 36 floats, so every default draw returns a record whose covariance has 36
  elements; an override of the covariance field is not checked: with an array of two
  floats, or with the empty list, the draw returns the record all the same.
\<close>

theorem covariance_count_is_default_only:
  assumes "engine_ok ext"
  shows "array float64_default (Some 36) (Some 36) = Inr covariance_default \<and>
    field_strategies (pose_with_covariance None None) ! 1 = covariance_default \<and>
    (\<exists>p xs e'. draw ext (pose_with_covariance None None) e =
        Inr (PyNamedtuple PoseWithCovariance [p, PyList xs], e') \<and> length xs = 36) \<and>
    array float64_default (Some 2) (Some 2) = Inr (Lists float64_default (Some 2) (Some 2)) \<and>
    (\<exists>p xs e'. draw ext (pose_with_covariance None (Some (Lists float64_default (Some 2) (Some 2)))) e =
        Inr (PyNamedtuple PoseWithCovariance [p, PyList xs], e') \<and> length xs = 2) \<and>
    (\<exists>p e'. draw ext (pose_with_covariance None (Some (Just (PyList [])))) e =
        Inr (PyNamedtuple PoseWithCovariance [p, PyList []], e'))"
proof -
  have f: "\<exists>v e'. draw ext float64_default e = Inr (v, e')" for e
    by (simp add: float64_default_def split_beta)
  have pose_total: "\<exists>p e'. draw ext (pose None None) e = Inr (p, e')" for e
    by (simp add: callables default_values split_beta isinstance_def py_assert_def)
  have sized: "\<exists>xs e'. draw ext (Lists float64_default (Some n) (Some n)) e = Inr (PyList xs, e') \<and>
      length xs = n" for n e
  proof -
    obtain e1 where size: "draw_size ext (Some n) (Some n) e = (n, e1)"
      using fixed_size [OF assms, of n e] by (cases "draw_size ext (Some n) (Some n) e") simp
    from draw_elements_total [of ext float64_default n e1] f
    obtain vs e' where vs: "draw_elements ext float64_default n e1 = Inr (vs, e')"
      by blast
    with size draw_elements_length [OF vs] show ?thesis by simp
  qed
  have with_cov: "\<exists>p xs e'. draw ext (pose_with_covariance None (Some (Lists float64_default (Some n) (Some n)))) e =
      Inr (PyNamedtuple PoseWithCovariance [p, PyList xs], e') \<and> length xs = n" for n
  proof -
    from pose_total obtain p e1 where p: "draw ext (pose None None) e = Inr (p, e1)" by blast
    from sized [of n e1] obtain xs e2 where
      "draw ext (Lists float64_default (Some n) (Some n)) e1 = Inr (PyList xs, e2)" "length xs = n"
      by blast
    with p show ?thesis
      by (simp add: pose_with_covariance_def or_default_def)
  qed
  have just_cov: "\<exists>p e'. draw ext (pose_with_covariance None (Some (Just (PyList [])))) e =
        Inr (PyNamedtuple PoseWithCovariance [p, PyList []], e')"
  proof -
    from pose_total obtain p e1 where p: "draw ext (pose None None) e = Inr (p, e1)" by blast
    then show ?thesis
      by (simp add: pose_with_covariance_def or_default_def)
  qed
  have a36: "array float64_default (Some 36) (Some 36) = Inr covariance_default"
    by (simp add: array_def covariance_default_def)
  have a2: "array float64_default (Some 2) (Some 2) = Inr (Lists float64_default (Some 2) (Some 2))"
    by (simp add: array_def)
  have fld: "field_strategies (pose_with_covariance None None) ! 1 = covariance_default"
    by (simp add: pose_with_covariance_def or_default_def)
  have dflt: "\<exists>p xs e'. draw ext (pose_with_covariance None None) e =
        Inr (PyNamedtuple PoseWithCovariance [p, PyList xs], e') \<and> length xs = 36"
    using with_cov [of 36] by (simp add: pose_with_covariance_def or_default_def covariance_default_def)
  from a36 fld dflt a2 with_cov [of 2] just_cov show ?thesis
    by blast
qed

text \<open>
  Witness for C9: the covariance overridden with the empty list, on the list engine.
\<close>

theorem covariance_count_is_default_only_witness:
  "engine_ok list_engine \<and>
   draw list_engine (pose_with_covariance None (Some (Just (PyList [])))) [2, 4] =
     Inr (PyNamedtuple PoseWithCovariance
       [PyNamedtuple Pose
          [PyNamedtuple Point [PyFloat (Finite 1), PyFloat (Finite 2), PyFloat (Finite 0)],
           PyNamedtuple Quaternion [PyFloat (Finite 0), PyFloat (Finite 0), PyFloat (Finite 0),
             PyFloat (Finite 0)]],
        PyList []], [])"
  using covariance_count_is_default_only [OF list_engine_ok, of "[2, 4]"] list_engine_ok
  by (simp add: callables default_values list_engine_def next_choice_def isinstance_def
      py_assert_def)

text \<open>
  C10. The default field generators of the signatures are constructed once, when the
  modules are loaded; every call that passes no argument for a parameter uses that one
  object; and no draw changes it. For any run of constructions, calls and draws after
  loading, on any engine:
  \<^item> the functions' default objects are those of loading;
  \<^item> the store is the store of loading followed by one object for each construction and
    each call, in order: no default is constructed again, and a draw adds nothing;
  \<^item> every object that existed after loading is still the same object and stands for
    the same strategy, and a draw from it in the final store is the draw of that
    strategy, leaving the store as it is;
  \<^item> the strategy object a call returns binds, at every position where no argument was
    passed, the function's default object of loading;
  \<^item> every draw of the run from an object of loading gave what a draw of the strategy it
    stood for at loading gives;
  \<^item> a draw from any object in any store returns the store it was given, and is the
    draw of the strategy the object stands for.
\<close>

theorem default_generators_are_shared:
  assumes "run ext actions (loaded, e0) = (results, m, e1)"
  shows "defaults m = defaults loaded \<and>
    objects m = objects loaded @ objects_made actions \<and>
    (\<forall>r < length (objects loaded).
       objects m ! r = objects loaded ! r \<and> strategy_of m r = strategy_of loaded r \<and>
       (\<exists>s. strategy_of loaded r = Some s \<and>
          (\<forall>e. draw_ref ext r (m, e) = with_store m (draw ext s e)))) \<and>
    (\<forall>k < length actions. \<forall>f args. actions ! k = Call f args \<longrightarrow>
       (\<exists>r. results ! k = Made r \<and> objects m ! r = Composite_object f args) \<and>
       (\<forall>bound i. bind_args (defaults m f) args = Some bound \<longrightarrow> i < length bound \<longrightarrow>
          (i < length args \<longrightarrow> args ! i = None) \<longrightarrow>
          bound ! i = defaults loaded f ! i \<and> bound ! i < length (objects loaded))) \<and>
    (\<forall>k < length actions. \<forall>r. actions ! k = Draw r \<longrightarrow> r < length (objects loaded) \<longrightarrow>
       (\<exists>s ek. strategy_of loaded r = Some s \<and> results ! k = Drew (outcome (draw ext s ek)))) \<and>
    (\<forall>r m0 e v m' e'. draw_ref ext r (m0, e) = Inr (v, m', e') \<longrightarrow> m' = m0) \<and>
    (\<forall>r m0 s e. strategy_of m0 r = Some s \<longrightarrow>
       draw_ref ext r (m0, e) = with_store m0 (draw ext s e))"
proof -
  from run_invariant [OF assms] have
    dfl: "defaults m = defaults loaded" and
    objs: "objects m = objects loaded @ objects_made actions" and
    res: "list_all2 (result_of ext loaded m) actions results"
    by simp_all
  have old: "objects m ! r = objects loaded ! r \<and> strategy_of m r = strategy_of loaded r \<and>
      (\<exists>s. strategy_of loaded r = Some s \<and>
         (\<forall>e. draw_ref ext r (m, e) = with_store m (draw ext s e)))"
    if r: "r < length (objects loaded)" for r
  proof -
    from loaded_resolves [OF r] obtain s where s: "strategy_of loaded r = Some s" by blast
    from strategy_of_extend [OF objs dfl r] s have "strategy_of m r = Some s" by simp
    from draw_ref_sound [OF this, of ext] s strategy_of_extend [OF objs dfl r] r show ?thesis
      by (simp add: objs nth_append)
  qed
  have called: "(\<exists>r. results ! k = Made r \<and> objects m ! r = Composite_object f args) \<and>
      (\<forall>bound i. bind_args (defaults m f) args = Some bound \<longrightarrow> i < length bound \<longrightarrow>
         (i < length args \<longrightarrow> args ! i = None) \<longrightarrow>
         bound ! i = defaults loaded f ! i \<and> bound ! i < length (objects loaded))"
    if k: "k < length actions" and a: "actions ! k = Call f args" for k f args
  proof -
    from list_all2_nthD [OF res k] a have
      made: "\<exists>r. results ! k = Made r \<and> objects m ! r = Composite_object f args"
      by (auto simp: result_of_def)
    have "bound ! i = defaults loaded f ! i \<and> bound ! i < length (objects loaded)"
      if b: "bind_args (defaults m f) args = Some bound" and i: "i < length bound"
        and n: "i < length args \<longrightarrow> args ! i = None" for bound i
    proof -
      from bind_args_default [OF b i n] dfl have
        "length bound = length (defaults loaded f)" "bound ! i = defaults loaded f ! i"
        by simp_all
      with i loaded_defaults_exist [of "defaults loaded f ! i" f] show ?thesis
        by simp
    qed
    with made show ?thesis by blast
  qed
  have drawn: "\<exists>s ek. strategy_of loaded r = Some s \<and> results ! k = Drew (outcome (draw ext s ek))"
    if k: "k < length actions" and a: "actions ! k = Draw r" and r: "r < length (objects loaded)"
    for k r
  proof -
    from list_all2_nthD [OF res k] a obtain mk ek new where
      mk: "defaults mk = defaults loaded" "objects mk = objects loaded @ new"
        "results ! k = Drew (outcome (draw_ref ext r (mk, ek)))"
      by (auto simp: result_of_def)
    from loaded_resolves [OF r] obtain s where s: "strategy_of loaded r = Some s" by blast
    from strategy_of_extend [OF mk(2) mk(1) r] s have "strategy_of mk r = Some s" by simp
    from draw_ref_sound [OF this, of ext ek] mk(3) have
      "results ! k = Drew (outcome (draw ext s ek))"
      by (cases "draw ext s ek") (auto simp: outcome_def)
    with s show ?thesis by blast
  qed
  have kept: "m' = m0" if "draw_ref ext r (m0, e) = Inr (v, m', e')" for r m0 e v m' e'
    using draw_ref_keeps_store(1) [OF that] by simp
  have sound: "draw_ref ext r (m0, e) = with_store m0 (draw ext s e)"
    if "strategy_of m0 r = Some s" for r m0 s e
    using draw_ref_sound [OF that, of ext e] .
  from dfl objs old called drawn kept sound show ?thesis
    by blast
qed

text \<open>
  Witness for C10: after loading, \<^verbatim>\<open>just(1.0)\<close> is constructed, \<^verbatim>\<open>point(x=just(1.0))\<close> is
  called, and draws are made from the call's strategy, from the default \<^verbatim>\<open>point()\<close> of
  \<^verbatim>\<open>pose\<close>, and from the call's strategy again.
\<close>

theorem default_generators_are_shared_witness:
  "fst (run list_engine [Construct (Primitive_object (Just (PyFloat (Finite 1)))), Call F_point [Some 36],
        Draw 37, Draw 12, Draw 37] (loaded, [3, 4, 5, 6, 7, 8, 9])) =
     [Made 36, Made 37,
      Drew (Inr (PyNamedtuple Point [PyFloat (Finite 1), PyFloat (Finite (3 / 2)), PyFloat (Finite 2)])),
      Drew (Inr (PyNamedtuple Point
        [PyFloat (Finite (5 / 2)), PyFloat (Finite 3), PyFloat (Finite (7 / 2))])),
      Drew (Inr (PyNamedtuple Point [PyFloat (Finite 1), PyFloat (Finite 4), PyFloat (Finite (9 / 2))]))] \<and>
   objects (fst (snd (run list_engine [Construct (Primitive_object (Just (PyFloat (Finite 1)))), Call F_point [Some 36],
        Draw 37, Draw 12, Draw 37] (loaded, [3, 4, 5, 6, 7, 8, 9])))) =
     objects loaded @
       [Primitive_object (Just (PyFloat (Finite 1))), Composite_object F_point [Some 36]] \<and>
   defaults loaded F_point = [5, 6, 7] \<and>
   bind_args [5, 6, 7] [Some 36] = Some [36, 6, 7] \<and>
   objects loaded ! 6 = Primitive_object float64_default"
  using default_generators_are_shared
    [of list_engine "[Construct (Primitive_object (Just (PyFloat (Finite 1)))), Call F_point [Some 36],
        Draw 37, Draw 12, Draw 37]" "[3, 4, 5, 6, 7, 8, 9]"
      "fst (run list_engine [Construct (Primitive_object (Just (PyFloat (Finite 1)))), Call F_point [Some 36],
        Draw 37, Draw 12, Draw 37] (loaded, [3, 4, 5, 6, 7, 8, 9]))"
      "fst (snd (run list_engine [Construct (Primitive_object (Just (PyFloat (Finite 1)))), Call F_point [Some 36],
        Draw 37, Draw 12, Draw 37] (loaded, [3, 4, 5, 6, 7, 8, 9])))"
      "snd (snd (run list_engine [Construct (Primitive_object (Just (PyFloat (Finite 1)))), Call F_point [Some 36],
        Draw 37, Draw 12, Draw 37] (loaded, [3, 4, 5, 6, 7, 8, 9])))"]
  by (simp add: loaded_objects_list loaded_defaults new_object_def call_def split_beta
      bind_args_def or_default_def draw_ref.simps run_body_def composite_of_def
      default_values list_engine_def next_choice_def isinstance_def py_assert_def)

end
